theory Spec2Isabelle
  imports Complex_Main "HOL-Library.Sublist"
begin

section \<open>JavaScript values as the services see them\<close>

text \<open>
  The quotation system keeps its six tables in one spreadsheet workbook and reads the
  cells back untyped (\<^verbatim>\<open>any[][]\<close>), so the embedding starts with the primitive values a
  cell can hold and with the handful of built-in coercions the services apply to them:
  truthiness (for \<^verbatim>\<open>x || d\<close>), strict equality (\<^verbatim>\<open>===\<close>, \<^verbatim>\<open>indexOf\<close>), \<^verbatim>\<open>String\<close>,
  \<^verbatim>\<open>Number\<close> and \<^verbatim>\<open>parseFloat\<close>.

  A number is \<^verbatim>\<open>NaN\<close>, an infinity, or a finite value. Finite values are exact decimal
  fractions (type \<open>rat\<close>): on decimals of up to 15 significant digits the rounding of a
  double is invisible, and no property below depends on arithmetic. Negative zero is
  not distinguished from zero.
\<close>

datatype jsnum = NaN | PosInf | NegInf | Fin rat

datatype cell = Undefined | Null | Bool bool | Num jsnum | Str string

fun truthy :: "cell \<Rightarrow> bool" where
  "truthy Undefined = False"
| "truthy Null = False"
| "truthy (Bool b) = b"
| "truthy (Num NaN) = False"
| "truthy (Num (Fin q)) = (q \<noteq> 0)"
| "truthy (Num _) = True"
| "truthy (Str s) = (s \<noteq> [])"

definition js_or :: "cell \<Rightarrow> cell \<Rightarrow> cell" where
  \<comment> \<open>\<^verbatim>\<open>a || b\<close>\<close>
  "js_or a b = (if truthy a then a else b)"

fun strict_eq :: "cell \<Rightarrow> cell \<Rightarrow> bool" where
  \<comment> \<open>\<^verbatim>\<open>a === b\<close>: same type, same value, and \<^verbatim>\<open>NaN\<close> equal to nothing\<close>
  "strict_eq (Num NaN) _ = False"
| "strict_eq _ (Num NaN) = False"
| "strict_eq a b = (a = b)"

fun indexOf :: "cell list \<Rightarrow> cell \<Rightarrow> int" where
  \<comment> \<open>\<^verbatim>\<open>xs.indexOf(v)\<close>: the first position strictly equal to \<open>v\<close>, or \<open>-1\<close>\<close>
  "indexOf [] v = -1"
| "indexOf (x # xs) v =
     (if strict_eq x v then 0
      else (let r = indexOf xs v in if r < 0 then -1 else r + 1))"

definition cell_at :: "cell list \<Rightarrow> int \<Rightarrow> cell" where
  \<comment> \<open>\<^verbatim>\<open>row[i]\<close>: reading outside the array (also at \<open>-1\<close>) gives \<^verbatim>\<open>undefined\<close>\<close>
  "cell_at row i = (if 0 \<le> i \<and> nat i < length row then row ! nat i else Undefined)"

subsection \<open>Numbers and text\<close>

definition digit_char :: "nat \<Rightarrow> char" where
  "digit_char d = char_of (48 + d)"

function string_of_nat :: "nat \<Rightarrow> string" where
  "string_of_nat n =
     (if n < 10 then [digit_char n] else string_of_nat (n div 10) @ [digit_char (n mod 10)])"
  by pat_completeness auto
termination
  by (relation "measure id") auto

declare string_of_nat.simps [simp del]

fun frac_digits :: "nat \<Rightarrow> rat \<Rightarrow> string" where
  "frac_digits 0 q = []"
| "frac_digits (Suc k) q =
     (if q = 0 then []
      else (let d = nat \<lfloor>q * 10\<rfloor> in digit_char d # frac_digits k (q * 10 - of_nat d)))"

fun num_to_string :: "jsnum \<Rightarrow> string" where
  \<comment> \<open>\<^verbatim>\<open>Number::toString\<close> in positional notation (values from \<open>1e-6\<close> up to \<open>1e21\<close>)\<close>
  "num_to_string NaN = ''NaN''"
| "num_to_string PosInf = ''Infinity''"
| "num_to_string NegInf = ''-Infinity''"
| "num_to_string (Fin q) =
     (let a = \<bar>q\<bar>; n = nat \<lfloor>a\<rfloor>; f = a - of_nat n
      in (if q < 0 then ''-'' else '''') @ string_of_nat n
         @ (if f = 0 then '''' else ''.'' @ frac_digits 17 f))"

fun js_String :: "cell \<Rightarrow> string" where
  \<comment> \<open>\<^verbatim>\<open>String(v)\<close>\<close>
  "js_String Undefined = ''undefined''"
| "js_String Null = ''null''"
| "js_String (Bool b) = (if b then ''true'' else ''false'')"
| "js_String (Num n) = num_to_string n"
| "js_String (Str s) = s"

definition is_ws :: "char \<Rightarrow> bool" where
  \<comment> \<open>the members of \<^verbatim>\<open>StrWhiteSpaceChar\<close> below code unit 256: TAB, LF, VT, FF, CR, SP
      and the no-break space U+00A0\<close>
  "is_ws c = (of_char c \<in> {9::nat, 10, 11, 12, 13, 32, 160})"

definition is_digit :: "char \<Rightarrow> bool" where
  "is_digit c = (48 \<le> (of_char c :: nat) \<and> (of_char c :: nat) \<le> 57)"

definition digits_value :: "string \<Rightarrow> nat" where
  "digits_value ds = foldl (\<lambda>acc c. acc * 10 + (of_char c - 48)) 0 ds"

definition strip_sign :: "string \<Rightarrow> bool \<times> string" where
  \<comment> \<open>an optional \<open>+\<close> or \<open>-\<close>; the flag says negative\<close>
  "strip_sign s =
     (case s of
        c # r \<Rightarrow> if c = CHR ''-'' then (True, r) else if c = CHR ''+'' then (False, r) else (False, s)
      | [] \<Rightarrow> (False, s))"

definition scan_exponent :: "string \<Rightarrow> (bool \<times> nat) \<times> string" where
  \<comment> \<open>\<^verbatim>\<open>ExponentPart\<close> if one is there: \<open>e\<close> or \<open>E\<close>, a sign, at least one digit\<close>
  "scan_exponent s =
     (case s of
        c # r \<Rightarrow>
          if c = CHR ''e'' \<or> c = CHR ''E'' then
            (let (neg, r1) = strip_sign r; ds = takeWhile is_digit r1
             in if ds = [] then ((False, 0), s)
                else ((neg, digits_value ds), dropWhile is_digit r1))
          else ((False, 0), s)
      | [] \<Rightarrow> ((False, 0), s))"

definition scale10 :: "rat \<Rightarrow> bool \<times> nat \<Rightarrow> rat" where
  "scale10 v e = (if fst e then v / 10 ^ snd e else v * 10 ^ snd e)"

definition scan_decimal :: "string \<Rightarrow> (jsnum \<times> string) option" where
  \<comment> \<open>the longest prefix that is a \<^verbatim>\<open>StrDecimalLiteral\<close>, its value, and what follows it\<close>
  "scan_decimal s =
     (let (neg, r) = strip_sign s in
      if take 8 r = ''Infinity'' then Some (if neg then NegInf else PosInf, drop 8 r)
      else
        (let ds = takeWhile is_digit r; r1 = dropWhile is_digit r;
             (fs, r2) = (case r1 of
                           c # t \<Rightarrow> if c = CHR ''.'' \<and> (ds \<noteq> [] \<or> takeWhile is_digit t \<noteq> [])
                                    then (takeWhile is_digit t, dropWhile is_digit t)
                                    else ([], r1)
                         | [] \<Rightarrow> ([], r1))
         in if ds = [] \<and> fs = [] then None
            else
              (let (e, r3) = scan_exponent r2;
                   m = of_nat (digits_value ds) + of_nat (digits_value fs) / 10 ^ length fs;
                   v = scale10 m e
               in Some (Fin (if neg then - v else v), r3))))"

definition trim :: "string \<Rightarrow> string" where
  "trim s = rev (dropWhile is_ws (rev (dropWhile is_ws s)))"

definition radix_digit :: "nat \<Rightarrow> char \<Rightarrow> nat option" where
  "radix_digit b c =
     (let n = (of_char c :: nat);
          d = (if 48 \<le> n \<and> n \<le> 57 then n - 48
               else if 97 \<le> n \<and> n \<le> 102 then n - 87
               else if 65 \<le> n \<and> n \<le> 70 then n - 55
               else b)
      in if d < b then Some d else None)"

fun radix_value :: "nat \<Rightarrow> nat \<Rightarrow> string \<Rightarrow> nat option" where
  "radix_value b acc [] = Some acc"
| "radix_value b acc (c # cs) =
     (case radix_digit b c of None \<Rightarrow> None | Some d \<Rightarrow> radix_value b (acc * b + d) cs)"

fun hex4 :: "string \<Rightarrow> nat option" where
  \<comment> \<open>the value of four hexadecimal digits, in either case\<close>
  "hex4 (a # b # c # d # _) =
     (case (radix_digit 16 a, radix_digit 16 b, radix_digit 16 c, radix_digit 16 d) of
        (Some x, Some y, Some z, Some w) \<Rightarrow> Some (((x * 16 + y) * 16 + z) * 16 + w)
      | _ \<Rightarrow> None)"
| "hex4 _ = None"

definition radix_of_prefix :: "string \<Rightarrow> nat option" where
  \<comment> \<open>\<^verbatim>\<open>0x\<close>, \<^verbatim>\<open>0o\<close>, \<^verbatim>\<open>0b\<close> in either case\<close>
  "radix_of_prefix s =
     (if take 2 s = ''0x'' \<or> take 2 s = ''0X'' then Some 16
      else if take 2 s = ''0o'' \<or> take 2 s = ''0O'' then Some 8
      else if take 2 s = ''0b'' \<or> take 2 s = ''0B'' then Some 2
      else None)"

definition string_to_number :: "string \<Rightarrow> jsnum" where
  \<comment> \<open>\<^verbatim>\<open>StringToNumber\<close>: the whole trimmed text must be one numeric literal\<close>
  "string_to_number s =
     (let t = trim s in
      if t = [] then Fin 0
      else
        (case radix_of_prefix t of
           Some b \<Rightarrow>
             (if drop 2 t = [] then NaN
              else (case radix_value b 0 (drop 2 t) of None \<Rightarrow> NaN | Some n \<Rightarrow> Fin (of_nat n)))
         | None \<Rightarrow>
             (case scan_decimal t of
                Some (v, rest) \<Rightarrow> if rest = [] then v else NaN
              | None \<Rightarrow> NaN)))"

fun js_Number :: "cell \<Rightarrow> jsnum" where
  \<comment> \<open>\<^verbatim>\<open>Number(v)\<close>\<close>
  "js_Number Undefined = NaN"
| "js_Number Null = Fin 0"
| "js_Number (Bool b) = (if b then Fin 1 else Fin 0)"
| "js_Number (Num n) = n"
| "js_Number (Str s) = string_to_number s"

definition parse_float_text :: "string \<Rightarrow> jsnum" where
  \<comment> \<open>\<^verbatim>\<open>parseFloat\<close> on text: leading blanks skipped, then the longest decimal prefix\<close>
  "parse_float_text s =
     (case scan_decimal (dropWhile is_ws s) of None \<Rightarrow> NaN | Some (v, _) \<Rightarrow> v)"

fun parseFloat :: "cell \<Rightarrow> jsnum" where
  \<comment> \<open>\<^verbatim>\<open>parseFloat(v)\<close> converts its argument to text first; the text of a number
      reads back as that number\<close>
  "parseFloat (Str s) = parse_float_text s"
| "parseFloat (Num n) = n"
| "parseFloat v = parse_float_text (js_String v)"

section \<open>The workbook and its backing store\<close>

text \<open>
  The spreadsheet library and the browser's \<^verbatim>\<open>localStorage\<close> are outside the repository;
  the services use them through a few calls, modelled as follows.

  \<^item> A sheet is the array of rows that \<^verbatim>\<open>sheet_to_json(ws, {header: 1})\<close> returns, and
    \<^verbatim>\<open>aoa_to_sheet\<close> is its inverse: in memory, rows of strings, numbers and booleans
    (what the services write) come back as they were written.
  \<^item> A workbook has its list \<^verbatim>\<open>SheetNames\<close> and its object \<^verbatim>\<open>Sheets\<close>. \<^verbatim>\<open>XLSX.write\<close>
    serialises the sheets that \<^verbatim>\<open>SheetNames\<close> lists. It refuses a workbook that lists
    none, and it throws on a text cell of more than 32767 characters in a listed sheet.
  \<^item> Writing and reading is not the identity on text. The writer puts the text of a cell
    into the file as it is; the reader takes every sequence \<^verbatim>\<open>_xHHHH_\<close> in it, with four
    hexadecimal digits, for the escape of the code unit \<^verbatim>\<open>HHHH\<close> and decodes it, from left
    to right and once: \<^verbatim>\<open>a_x0041_b\<close> is read back as \<^verbatim>\<open>aAb\<close>. The strings of this theory
    hold the code units below 256, so an escape that names a higher code unit stands
    for a text that they cannot hold; it is left in place. A sheet that the workbook
    holds without listing it is not written, so it is not read back.
  \<^item> A stored value is text. What matters of a text is what reading it gives: the text
    of a workbook (\<open>Base64 wb\<close> is a text that \<^verbatim>\<open>XLSX.read\<close> reads as \<open>wb\<close>), a text that
    \<^verbatim>\<open>XLSX.read\<close> throws on, a legacy \<^verbatim>\<open>blob:\<close> URL (with what fetching and reading it
    gives, if anything), or the empty string. So \<^verbatim>\<open>XLSX.write\<close> of a workbook is the text
    that reads as the workbook with its unlisted sheets dropped and its escapes decoded.
  \<^item> \<^verbatim>\<open>localStorage\<close> holds the current user's id under \<^verbatim>\<open>qs_current_user\<close> and one
    stored value per user key; \<^verbatim>\<open>setItem\<close> throws when the quota is exceeded. The field
    \<open>writes\<close> counts the values that \<^verbatim>\<open>setItem\<close> has stored, so that the number of
    persists of an operation can be stated.

  The Chinese sheet names, column headers and tokens of the source are written here as
  ASCII glosses, one gloss per literal: the sheets U+516C U+53F8 U+4FE1 U+606F as
  \<open>CompanyInfo\<close>, U+4EA7 U+54C1 U+5E93 as \<open>ProductLibrary\<close>, U+5BA2 U+6237 U+4FE1 U+606F
  as \<open>CustomerInfo\<close>, U+62A5 U+4EF7 U+5355 as \<open>Quotation\<close>, U+62A5 U+4EF7 U+5355 U+9879
  as \<open>QuotationItem\<close>, U+6761 U+6B3E U+6A21 U+677F as \<open>TermsTemplate\<close>; the tokens
  U+662F as \<open>Yes\<close> and U+5426 as \<open>No\<close>; the headers by their meaning, in source order.
\<close>

type_synonym sheet = "cell list list"

record workbook =
  SheetNames :: "string list"
  Sheets :: "string \<rightharpoonup> sheet"

datatype stored = Base64 workbook | Unreadable | BlobUrl "workbook option" | EmptyText

datatype error = Error string | QuotaExceededError | WriteError | ReadError | TypeError

record env =
  qs_current_user :: "string option"
  storage :: "string \<rightharpoonup> stored"
  quota_exceeded :: bool
  writes :: nat

definition book_new :: workbook where
  "book_new = \<lparr>SheetNames = [], Sheets = Map.empty\<rparr>"

definition book_append_sheet :: "workbook \<Rightarrow> sheet \<Rightarrow> string \<Rightarrow> workbook" where
  "book_append_sheet wb ws name =
     wb\<lparr>SheetNames := SheetNames wb @ [name], Sheets := (Sheets wb)(name \<mapsto> ws)\<rparr>"

fun escape_at :: "string \<Rightarrow> bool" where
  \<comment> \<open>the text starts with an escape \<^verbatim>\<open>_xHHHH_\<close>\<close>
  "escape_at (a # b # c # d # e # f # g # r) =
     (if a = CHR ''_'' then
        if b = CHR ''x'' then
          if g = CHR ''_'' then hex4 [c, d, e, f] \<noteq> None else False
        else False
      else False)"
| "escape_at s = False"

fun has_escape :: "string \<Rightarrow> bool" where
  "has_escape [] = False"
| "has_escape (c # s) = (escape_at (c # s) \<or> has_escape s)"

fun unescapexml :: "string \<Rightarrow> string" where
  \<comment> \<open>what the reader's \<^verbatim>\<open>unescapexml\<close> makes of the text of a cell that was written as it
      is: every escape \<^verbatim>\<open>_xHHHH_\<close> becomes the code unit it names (one that names a code
      unit of 256 or more is left in place)\<close>
  "unescapexml (a # b # c # d # e # f # g # r) =
     (if escape_at (a # b # c # d # e # f # g # r) then
        (case hex4 [c, d, e, f] of
           Some n \<Rightarrow>
             if n < 256 then char_of n # unescapexml r
             else a # unescapexml (b # c # d # e # f # g # r)
         | None \<Rightarrow> a # unescapexml (b # c # d # e # f # g # r))
      else a # unescapexml (b # c # d # e # f # g # r))"
| "unescapexml s = s"

fun read_back :: "cell \<Rightarrow> cell" where
  \<comment> \<open>a cell after a write and a read\<close>
  "read_back (Str s) = Str (unescapexml s)"
| "read_back c = c"

fun within_limit :: "cell \<Rightarrow> bool" where
  \<comment> \<open>the writer's test on the text of a cell\<close>
  "within_limit (Str s) = (int (length s) \<le> 32767)"
| "within_limit c = True"

definition writable :: "workbook \<Rightarrow> bool" where
  \<comment> \<open>no listed sheet holds a text cell that the writer throws on\<close>
  "writable wb =
     list_all (\<lambda>name. case Sheets wb name of
                         None \<Rightarrow> True
                       | Some data \<Rightarrow> list_all (list_all within_limit) data)
       (SheetNames wb)"

definition listed :: "workbook \<Rightarrow> workbook" where
  \<comment> \<open>the workbook that a write and a read give back: the sheets that are listed, every
      cell as it is read back\<close>
  "listed wb =
     wb\<lparr>Sheets := (\<lambda>name. if name \<in> set (SheetNames wb)
                             then map_option (map (map read_back)) (Sheets wb name)
                             else None)\<rparr>"

definition XLSX_write :: "workbook \<Rightarrow> error + stored" where
  "XLSX_write wb =
     (if SheetNames wb = [] \<or> \<not> writable wb then Inl WriteError
      else Inr (Base64 (listed wb)))"

fun XLSX_read :: "stored \<Rightarrow> workbook option" where
  "XLSX_read (Base64 wb) = Some wb"
| "XLSX_read _ = None"

definition getUserKey :: "env \<Rightarrow> string" where
  "getUserKey e =
     ''quotation_system_data:'' @
       (case qs_current_user e of
          None \<Rightarrow> ''default''
        | Some uid \<Rightarrow> if uid = [] then ''default'' else uid)"

definition getItem :: "env \<Rightarrow> string \<Rightarrow> stored option" where
  "getItem e k = storage e k"

definition setItem :: "env \<Rightarrow> string \<Rightarrow> stored \<Rightarrow> error + env" where
  "setItem e k v =
     (if quota_exceeded e then Inl QuotaExceededError
      else Inr (e\<lparr>storage := (storage e)(k \<mapsto> v), writes := Suc (writes e)\<rparr>))"

fun absent :: "stored option \<Rightarrow> bool" where
  \<comment> \<open>\<^verbatim>\<open>!stored\<close>: no item, or the empty string\<close>
  "absent None = True"
| "absent (Some EmptyText) = True"
| "absent (Some _) = False"

subsection \<open>Canonical headers\<close>

definition getCompanyHeaders :: "cell list" where
  "getCompanyHeaders = map Str
     [''ID'', ''CompanyName'', ''EnglishName'', ''Address'', ''EnglishAddress'', ''Phone'',
      ''Email'', ''Website'', ''TaxNumber'', ''BankName'', ''BankAccount'', ''SWIFTCode'',
      ''IntermediaryBank'', ''Logo'', ''IsDefault'']"

definition getProductHeaders :: "cell list" where
  "getProductHeaders = map Str
     [''ID'', ''ProductName'', ''EnglishName'', ''ProductDescription'', ''EnglishDescription'',
      ''Category'', ''Unit'', ''MinPrice'', ''MaxPrice'', ''Currency'', ''Specifications'',
      ''IsActive'', ''Images'']"

definition getCustomerHeaders :: "cell list" where
  "getCustomerHeaders = map Str
     [''ID'', ''CustomerName'', ''ContactPerson'', ''Email'', ''Phone'', ''Address'',
      ''Country'', ''CompanyName'', ''TaxNumber'', ''Notes'']"

definition getQuotationHeaders :: "cell list" where
  "getQuotationHeaders = map Str
     [''ID'', ''QuotationNumber'', ''CompanyID'', ''CustomerID'', ''QuotationDate'',
      ''ExpiryDate'', ''Currency'', ''PaymentTerms'', ''DeliveryTerms'', ''PickupLocation'',
      ''TradeTerms'', ''Subtotal'', ''TaxRate'', ''TaxAmount'', ''TotalAmount'', ''Status'',
      ''Notes'']"

definition getQuotationItemHeaders :: "cell list" where
  "getQuotationItemHeaders = map Str
     [''ID'', ''QuotationID'', ''ProductID'', ''ProductName'', ''Description'', ''Quantity'',
      ''Unit'', ''UnitPrice'', ''DiscountRate'', ''DiscountAmount'', ''TotalPrice'']"

definition getTemplateHeaders :: "cell list" where
  "getTemplateHeaders = map Str
     [''ID'', ''TemplateName'', ''TemplateType'', ''Content'', ''IsDefault'']"

subsection \<open>Initialising, reading and saving the workbook\<close>

definition fresh_workbook :: workbook where
  \<comment> \<open>the workbook that \<^verbatim>\<open>initializeExcelFile\<close> builds: one sheet per table, holding
      the header row only\<close>
  "fresh_workbook =
     foldl (\<lambda>wb (name, hdr). book_append_sheet wb [hdr] name) book_new
       [(''CompanyInfo'', getCompanyHeaders),
        (''ProductLibrary'', getProductHeaders),
        (''CustomerInfo'', getCustomerHeaders),
        (''Quotation'', getQuotationHeaders),
        (''QuotationItem'', getQuotationItemHeaders),
        (''TermsTemplate'', getTemplateHeaders)]"

definition initializeExcelFile :: "env \<Rightarrow> error + env" where
  "initializeExcelFile e =
     (case XLSX_write fresh_workbook of
        Inl err \<Rightarrow> Inl err
      | Inr base64 \<Rightarrow> setItem e (getUserKey e) base64)"

function readFromLocalStorage :: "env \<Rightarrow> workbook option \<times> env" where
  "readFromLocalStorage e =
     (if absent (getItem e (getUserKey e)) then
        (case initializeExcelFile e of
           Inl err \<Rightarrow> (None, e)
         | Inr e' \<Rightarrow> readFromLocalStorage e')
      else
        (case getItem e (getUserKey e) of
           Some (BlobUrl fetched) \<Rightarrow>
             (case fetched of
                Some wb \<Rightarrow> (Some wb, e)
              | None \<Rightarrow>
                  (case initializeExcelFile e of
                     Inl err \<Rightarrow> (None, e)
                   | Inr e' \<Rightarrow>
                       (XLSX_read (case getItem e' (getUserKey e') of
                                     None \<Rightarrow> EmptyText | Some v \<Rightarrow> v), e')))
         | Some v \<Rightarrow> (XLSX_read v, e)
         | None \<Rightarrow> (None, e)))"
  by pat_completeness auto
termination
proof (relation "measure (\<lambda>e. if absent (getItem e (getUserKey e)) then 1 else 0)")
  show "wf (measure (\<lambda>e. if absent (getItem e (getUserKey e)) then 1 else 0))"
    by simp
next
  fix e e'
  assume a: "absent (getItem e (getUserKey e))" and i: "initializeExcelFile e = Inr e'"
  from i have "\<not> absent (getItem e' (getUserKey e'))"
    by (auto simp: initializeExcelFile_def setItem_def getItem_def getUserKey_def
        XLSX_write_def split: sum.splits if_splits)
  with a show "(e', e) \<in> measure (\<lambda>e. if absent (getItem e (getUserKey e)) then 1 else 0)"
    by simp
qed

declare readFromLocalStorage.simps [simp del]

definition saveToLocalStorage :: "env \<Rightarrow> workbook \<Rightarrow> error + env" where
  \<comment> \<open>one \<^verbatim>\<open>XLSX.write\<close> of the whole workbook and one \<^verbatim>\<open>setItem\<close>; any exception is
      logged and thrown again\<close>
  "saveToLocalStorage e wb =
     (case XLSX_write wb of
        Inl err \<Rightarrow> Inl err
      | Inr base64 \<Rightarrow> setItem e (getUserKey e) base64)"

section \<open>ExcelService: companies\<close>

text \<open>
  \<^verbatim>\<open>getCompanies\<close> reads a field as \<^verbatim>\<open>row[headers.indexOf(h)] || ''\<close> with no coercion, so
  a field of a decoded company holds whatever truthy value the cell held; the record
  fields are cells. A company as the interface types it has strings everywhere, an
  optional field being \<^verbatim>\<open>undefined\<close> when it is not set.
\<close>

record Company =
  c_id :: cell
  c_name :: cell
  c_nameEn :: cell
  c_address :: cell
  c_addressEn :: cell
  c_phone :: cell
  c_email :: cell
  c_website :: cell
  c_taxNumber :: cell
  c_bankName :: cell
  c_bankAccount :: cell
  c_swiftCode :: cell
  c_intermediaryBank :: cell
  c_logo :: cell
  c_isDefault :: bool

definition field :: "cell list \<Rightarrow> cell list \<Rightarrow> string \<Rightarrow> cell" where
  \<comment> \<open>\<^verbatim>\<open>row[headers.indexOf(h)]\<close>\<close>
  "field headers row h = cell_at row (indexOf headers (Str h))"

definition company_of_row :: "cell list \<Rightarrow> cell list \<Rightarrow> Company" where
  "company_of_row headers row =
     \<lparr>c_id = js_or (field headers row ''ID'') (Str ''''),
      c_name = js_or (field headers row ''CompanyName'') (Str ''''),
      c_nameEn = js_or (field headers row ''EnglishName'') (Str ''''),
      c_address = js_or (field headers row ''Address'') (Str ''''),
      c_addressEn = js_or (field headers row ''EnglishAddress'') (Str ''''),
      c_phone = js_or (field headers row ''Phone'') (Str ''''),
      c_email = js_or (field headers row ''Email'') (Str ''''),
      c_website = js_or (field headers row ''Website'') (Str ''''),
      c_taxNumber = js_or (field headers row ''TaxNumber'') (Str ''''),
      c_bankName = js_or (field headers row ''BankName'') (Str ''''),
      c_bankAccount = js_or (field headers row ''BankAccount'') (Str ''''),
      c_swiftCode = js_or (field headers row ''SWIFTCode'') (Str ''''),
      c_intermediaryBank = js_or (field headers row ''IntermediaryBank'') (Str ''''),
      c_logo = js_or (field headers row ''Logo'') (Str ''''),
      c_isDefault = strict_eq (field headers row ''IsDefault'') (Str ''Yes'')\<rparr>"

definition rows_of :: "workbook \<Rightarrow> string \<Rightarrow> (cell list \<Rightarrow> cell list \<Rightarrow> 'a) \<Rightarrow> 'a list" where
  \<comment> \<open>the shape shared by the readers: no sheet or no data row gives the empty list,
      otherwise every row after the first is decoded against the first\<close>
  "rows_of wb name decode =
     (case Sheets wb name of
        None \<Rightarrow> []
      | Some data \<Rightarrow> if length data \<le> 1 then [] else map (decode (hd data)) (tl data))"

definition getCompanies :: "env \<Rightarrow> Company list \<times> env" where
  "getCompanies e =
     (let (workbook, e1) = readFromLocalStorage e in
      case workbook of
        None \<Rightarrow> ([], e1)
      | Some wb \<Rightarrow> (rows_of wb ''CompanyInfo'' company_of_row, e1))"

fun find_from :: "nat \<Rightarrow> sheet \<Rightarrow> cell \<Rightarrow> int" where
  "find_from i [] v = -1"
| "find_from i (r # rs) v = (if strict_eq (cell_at r 0) v then int i else find_from (Suc i) rs v)"

definition existingIndex :: "sheet \<Rightarrow> cell \<Rightarrow> int" where
  \<comment> \<open>\<^verbatim>\<open>for (i = 1; i < data.length; i++) if (data[i][0] === id) { existingIndex = i; break; }\<close>\<close>
  "existingIndex data v = find_from 1 (tl data) v"

definition upsert :: "sheet \<Rightarrow> cell \<Rightarrow> cell list \<Rightarrow> sheet" where
  \<comment> \<open>replace the row found, or push a new one\<close>
  "upsert data v rowData =
     (let i = existingIndex data v
      in if i \<ge> 0 then data[nat i := rowData] else data @ [rowData])"

definition company_row :: "Company \<Rightarrow> cell list" where
  "company_row company =
     [c_id company, c_name company, c_nameEn company, c_address company, c_addressEn company,
      c_phone company, c_email company, c_website company, c_taxNumber company,
      c_bankName company, c_bankAccount company, c_swiftCode company,
      js_or (c_intermediaryBank company) (Str ''''),
      js_or (c_logo company) (Str ''''),
      Str (if c_isDefault company then ''Yes'' else ''No'')]"

definition cannot_read :: error where
  "cannot_read = Error ''cannot read the Excel file''"

definition sheet_or :: "workbook \<Rightarrow> string \<Rightarrow> cell list \<Rightarrow> sheet" where
  \<comment> \<open>the sheet, or a new one holding the header row when the workbook has none\<close>
  "sheet_or wb name headers = (case Sheets wb name of None \<Rightarrow> [headers] | Some ws \<Rightarrow> ws)"

definition persist :: "env \<Rightarrow> workbook \<Rightarrow> error option \<times> env" where
  \<comment> \<open>\<^verbatim>\<open>await this.saveToLocalStorage(workbook)\<close> as the last statement of a save\<close>
  "persist e wb = (case saveToLocalStorage e wb of Inl err \<Rightarrow> (Some err, e) | Inr e' \<Rightarrow> (None, e'))"

definition saveCompany :: "env \<Rightarrow> Company \<Rightarrow> error option \<times> env" where
  "saveCompany e company =
     (let (workbook, e1) = readFromLocalStorage e in
      case workbook of
        None \<Rightarrow> (Some cannot_read, e1)
      | Some wb \<Rightarrow>
          (let data = sheet_or wb ''CompanyInfo'' getCompanyHeaders;
               data' = upsert data (c_id company) (company_row company)
           in persist e1 (wb\<lparr>Sheets := (Sheets wb)(''CompanyInfo'' \<mapsto> data')\<rparr>)))"

section \<open>ExcelService: quotations and their items\<close>

record QuotationItem =
  qi_id :: string
  qi_productId :: string
  qi_productName :: string
  qi_description :: string
  qi_quantity :: jsnum
  qi_unit :: string
  qi_unitPrice :: jsnum
  qi_discountRate :: jsnum
  qi_discountAmount :: jsnum
  qi_totalPrice :: jsnum

record Quotation =
  q_id :: string
  q_quotationNumber :: string
  q_companyId :: string
  q_customerId :: string
  q_quotationDate :: string
  q_expiryDate :: string
  q_currency :: string
  q_paymentTerms :: string
  q_deliveryTerms :: string
  q_pickupLocation :: string
  q_tradeTerms :: string
  q_subtotal :: jsnum
  q_taxRate :: jsnum
  q_taxAmount :: jsnum
  q_totalAmount :: jsnum
  q_status :: string
  q_notes :: string
  q_items :: "QuotationItem list"

definition text_or :: "cell \<Rightarrow> string \<Rightarrow> string" where
  \<comment> \<open>\<^verbatim>\<open>String(c || d)\<close>\<close>
  "text_or c d = js_String (js_or c (Str d))"

definition number_or_zero :: "cell \<Rightarrow> jsnum" where
  \<comment> \<open>\<^verbatim>\<open>Number(c || 0)\<close>\<close>
  "number_or_zero c = js_Number (js_or c (Num (Fin 0)))"

definition item_of_row :: "cell list \<Rightarrow> cell list \<Rightarrow> QuotationItem" where
  "item_of_row headers row =
     \<lparr>qi_id = text_or (field headers row ''ID'') '''',
      qi_productId = text_or (field headers row ''ProductID'') '''',
      qi_productName = text_or (field headers row ''ProductName'') '''',
      qi_description = text_or (field headers row ''Description'') '''',
      qi_quantity = number_or_zero (field headers row ''Quantity''),
      qi_unit = text_or (field headers row ''Unit'') '''',
      qi_unitPrice = number_or_zero (field headers row ''UnitPrice''),
      qi_discountRate = number_or_zero (field headers row ''DiscountRate''),
      qi_discountAmount = number_or_zero (field headers row ''DiscountAmount''),
      qi_totalPrice = number_or_zero (field headers row ''TotalPrice'')\<rparr>"

definition items_of_sheet :: "sheet \<Rightarrow> string \<Rightarrow> QuotationItem list" where
  \<comment> \<open>the loop of \<^verbatim>\<open>getQuotationItemsByQuotationId\<close>: rows of another quotation are
      skipped, the others decoded in row order\<close>
  "items_of_sheet data quotationId =
     (if length data \<le> 1 then []
      else map (item_of_row (hd data))
             (filter (\<lambda>row. js_String (field (hd data) row ''QuotationID'') = quotationId)
                (tl data)))"

definition getQuotationItemsByQuotationId :: "env \<Rightarrow> string \<Rightarrow> QuotationItem list \<times> env" where
  "getQuotationItemsByQuotationId e quotationId =
     (let (workbook, e1) = readFromLocalStorage e in
      case workbook of
        None \<Rightarrow> ([], e1)
      | Some wb \<Rightarrow>
          (case Sheets wb ''QuotationItem'' of
             None \<Rightarrow> ([], e1)
           | Some data \<Rightarrow> (items_of_sheet data quotationId, e1)))"

definition quotation_of_row :: "cell list \<Rightarrow> cell list \<Rightarrow> Quotation" where
  "quotation_of_row headers row =
     \<lparr>q_id = text_or (field headers row ''ID'') '''',
      q_quotationNumber = text_or (field headers row ''QuotationNumber'') '''',
      q_companyId = text_or (field headers row ''CompanyID'') '''',
      q_customerId = text_or (field headers row ''CustomerID'') '''',
      q_quotationDate = text_or (field headers row ''QuotationDate'') '''',
      q_expiryDate = text_or (field headers row ''ExpiryDate'') '''',
      q_currency = text_or (field headers row ''Currency'') ''USD'',
      q_paymentTerms = text_or (field headers row ''PaymentTerms'') '''',
      q_deliveryTerms = text_or (field headers row ''DeliveryTerms'') '''',
      q_pickupLocation = text_or (field headers row ''PickupLocation'') '''',
      q_tradeTerms = text_or (field headers row ''TradeTerms'') '''',
      q_subtotal = number_or_zero (field headers row ''Subtotal''),
      q_taxRate = number_or_zero (field headers row ''TaxRate''),
      q_taxAmount = number_or_zero (field headers row ''TaxAmount''),
      q_totalAmount = number_or_zero (field headers row ''TotalAmount''),
      q_status = text_or (field headers row ''Status'') ''draft'',
      q_notes = text_or (field headers row ''Notes'') '''',
      q_items = []\<rparr>"

definition getQuotations :: "env \<Rightarrow> Quotation list \<times> env" where
  "getQuotations e =
     (let (workbook, e1) = readFromLocalStorage e in
      case workbook of
        None \<Rightarrow> ([], e1)
      | Some wb \<Rightarrow> (rows_of wb ''Quotation'' quotation_of_row, e1))"

definition quotation_row :: "Quotation \<Rightarrow> cell list" where
  "quotation_row quotation =
     [Str (q_id quotation), Str (q_quotationNumber quotation), Str (q_companyId quotation),
      Str (q_customerId quotation), Str (q_quotationDate quotation),
      Str (q_expiryDate quotation), Str (q_currency quotation),
      Str (q_paymentTerms quotation), Str (q_deliveryTerms quotation),
      Str (q_pickupLocation quotation), Str (q_tradeTerms quotation),
      Num (q_subtotal quotation), Num (q_taxRate quotation), Num (q_taxAmount quotation),
      Num (q_totalAmount quotation), Str (q_status quotation), Str (q_notes quotation)]"

definition item_row :: "string \<Rightarrow> QuotationItem \<Rightarrow> cell list" where
  "item_row quotationId item =
     [Str (qi_id item), Str quotationId, Str (qi_productId item), Str (qi_productName item),
      Str (qi_description item), Num (qi_quantity item), Str (qi_unit item),
      Num (qi_unitPrice item), Num (qi_discountRate item), Num (qi_discountAmount item),
      Num (qi_totalPrice item)]"

definition replace_items :: "sheet \<Rightarrow> Quotation \<Rightarrow> sheet" where
  \<comment> \<open>\<^verbatim>\<open>kept\<close>: the first row, the rows of other quotations, then the new items\<close>
  "replace_items dataItems quotation =
     hd dataItems
     # filter (\<lambda>row. js_String (field (hd dataItems) row ''QuotationID'') \<noteq> q_id quotation)
         (tl dataItems)
     @ map (item_row (q_id quotation)) (q_items quotation)"

definition saveQuotation :: "env \<Rightarrow> Quotation \<Rightarrow> error option \<times> env" where
  "saveQuotation e quotation =
     (let (workbook, e1) = readFromLocalStorage e in
      case workbook of
        None \<Rightarrow> (Some cannot_read, e1)
      | Some wb \<Rightarrow>
          (let dataQ = sheet_or wb ''Quotation'' getQuotationHeaders;
               dataQ' = upsert dataQ (Str (q_id quotation)) (quotation_row quotation);
               wb1 = wb\<lparr>Sheets := (Sheets wb)(''Quotation'' \<mapsto> dataQ')\<rparr>;
               dataItems = sheet_or wb1 ''QuotationItem'' getQuotationItemHeaders
           in if dataItems = [] then (Some TypeError, e1)
              else persist e1
                     (wb1\<lparr>Sheets := (Sheets wb1)(''QuotationItem'' \<mapsto>
                                       replace_items dataItems quotation)\<rparr>)))"

section \<open>ExcelService: import\<close>

datatype upload = FileContent "workbook option" | FileReadFailure

fun join :: "string \<Rightarrow> string list \<Rightarrow> string" where
  \<comment> \<open>\<^verbatim>\<open>xs.join(sep)\<close>\<close>
  "join sep [] = []"
| "join sep [x] = x"
| "join sep (x # y # r) = x @ sep @ join sep (y # r)"

definition requiredSheets :: "string list" where
  "requiredSheets = [''CompanyInfo'', ''ProductLibrary'', ''CustomerInfo'']"

definition missingSheets :: "workbook \<Rightarrow> string list" where
  "missingSheets wb = filter (\<lambda>sheet. sheet \<notin> set (SheetNames wb)) requiredSheets"

definition importExcel :: "env \<Rightarrow> upload \<Rightarrow> error option \<times> env" where
  \<comment> \<open>what the returned promise settles to: \<open>None\<close> for \<^verbatim>\<open>resolve()\<close>, the error for
      \<^verbatim>\<open>reject(error)\<close>\<close>
  "importExcel e file =
     (case file of
        FileReadFailure \<Rightarrow> (Some (Error ''file read failed''), e)
      | FileContent None \<Rightarrow> (Some ReadError, e)
      | FileContent (Some wb) \<Rightarrow>
          (if length (missingSheets wb) > 0
           then (Some (Error (''missing required sheets: '' @ join '', '' (missingSheets wb))), e)
           else persist e wb))"

section \<open>The company store\<close>

record CompanyState =
  companies :: "Company list"
  currentCompany :: "Company option"
  loading :: bool
  error :: "error option"

definition loadCompanies :: "CompanyState \<times> env \<Rightarrow> CompanyState \<times> env" where
  "loadCompanies se =
     (let (st, e) = se;
          st1 = st\<lparr>loading := True, error := None\<rparr>;
          (cs, e1) = getCompanies e;
          st2 = st1\<lparr>companies := cs, loading := False\<rparr>
      in if currentCompany st2 = None \<and> length cs > 0
         then (st2\<lparr>currentCompany :=
                      Some (case find c_isDefault cs of Some d \<Rightarrow> d | None \<Rightarrow> hd cs)\<rparr>, e1)
         else (st2, e1))"

fun save_each :: "env \<Rightarrow> Company list \<Rightarrow> error option \<times> env" where
  \<comment> \<open>\<^verbatim>\<open>for (const company of updatedCompanies) await excelService.saveCompany(company)\<close>:
      the first save that throws ends the loop\<close>
  "save_each e [] = (None, e)"
| "save_each e (company # rest) =
     (case saveCompany e company of
        (Some err, e1) \<Rightarrow> (Some err, e1)
      | (None, e1) \<Rightarrow> save_each e1 rest)"

definition resave :: "CompanyState \<times> env \<Rightarrow> Company list \<Rightarrow> error option \<times> CompanyState \<times> env" where
  \<comment> \<open>the body shared by \<^verbatim>\<open>deleteCompany\<close> and \<^verbatim>\<open>setDefaultCompany\<close>: save every company
      of the list, reload the list, clear the loading flag; an error is recorded and
      thrown again\<close>
  "resave se updatedCompanies =
     (let (st, e) = se;
          st1 = st\<lparr>loading := True, error := None\<rparr>
      in case save_each e updatedCompanies of
           (Some err, e1) \<Rightarrow> (Some err, st1\<lparr>error := Some err, loading := False\<rparr>, e1)
         | (None, e1) \<Rightarrow>
             (let (st2, e2) = loadCompanies (st1, e1) in (None, st2\<lparr>loading := False\<rparr>, e2)))"

definition deleteCompany :: "CompanyState \<times> env \<Rightarrow> string \<Rightarrow> error option \<times> CompanyState \<times> env" where
  "deleteCompany se companyId =
     resave se (filter (\<lambda>c. \<not> strict_eq (c_id c) (Str companyId)) (companies (fst se)))"

definition make_default :: "string \<Rightarrow> Company \<Rightarrow> Company" where
  \<comment> \<open>\<^verbatim>\<open>{ ...company, isDefault: company.id === companyId }\<close>\<close>
  "make_default companyId company =
     company\<lparr>c_isDefault := strict_eq (c_id company) (Str companyId)\<rparr>"

definition setDefaultCompany :: "CompanyState \<times> env \<Rightarrow> string \<Rightarrow> error option \<times> CompanyState \<times> env" where
  "setDefaultCompany se companyId = resave se (map (make_default companyId) (companies (fst se)))"

section \<open>States used in the statements and examples\<close>

definition stored_env :: "env \<Rightarrow> workbook \<Rightarrow> env" where
  \<comment> \<open>the environment after one successful persist of \<open>wb\<close> under the current user's key\<close>
  "stored_env e wb =
     e\<lparr>storage := (storage e)(getUserKey e \<mapsto> Base64 wb), writes := Suc (writes e)\<rparr>"

definition env0 :: env where
  \<comment> \<open>a browser with nothing stored\<close>
  "env0 = \<lparr>qs_current_user = None, storage = Map.empty, quota_exceeded = False, writes = 0\<rparr>"

definition env_corrupt :: env where
  \<comment> \<open>the default user's value is a text that cannot be read as a workbook\<close>
  "env_corrupt = env0\<lparr>storage := [''quotation_system_data:default'' \<mapsto> Unreadable]\<rparr>"

definition wb_long_text :: workbook where
  \<comment> \<open>the six sheets, the company sheet holding one row whose first cell is a text of
      32768 characters\<close>
  "wb_long_text =
     fresh_workbook\<lparr>Sheets := (Sheets fresh_workbook)(''CompanyInfo'' \<mapsto>
        [getCompanyHeaders, [Str (replicate 32768 CHR ''a'')]])\<rparr>"

definition wb_three_sheets :: workbook where
  \<comment> \<open>a workbook of the three sheets that an import asks for, each holding its header row\<close>
  "wb_three_sheets =
     \<lparr>SheetNames = [''CompanyInfo'', ''ProductLibrary'', ''CustomerInfo''],
      Sheets = [''CompanyInfo'' \<mapsto> [getCompanyHeaders],
                ''ProductLibrary'' \<mapsto> [getProductHeaders],
                ''CustomerInfo'' \<mapsto> [getCustomerHeaders]]\<rparr>"

definition env_imported :: env where
  \<comment> \<open>the store after the import of \<open>wb_three_sheets\<close> into the empty store\<close>
  "env_imported = snd (importExcel env0 (FileContent (Some wb_three_sheets)))"

definition wb_no_customer :: workbook where
  \<comment> \<open>an upload with the company and product sheets only\<close>
  "wb_no_customer =
     \<lparr>SheetNames = [''CompanyInfo'', ''ProductLibrary''],
      Sheets = [''CompanyInfo'' \<mapsto> [getCompanyHeaders], ''ProductLibrary'' \<mapsto> [getProductHeaders]]\<rparr>"

definition item1 :: QuotationItem where
  "item1 = \<lparr>qi_id = ''i1'', qi_productId = ''p1'', qi_productName = ''Valve'',
            qi_description = ''Brass valve'', qi_quantity = Fin 2, qi_unit = ''pcs'',
            qi_unitPrice = Fin 10, qi_discountRate = Fin 0, qi_discountAmount = Fin 0,
            qi_totalPrice = Fin 20\<rparr>"

definition item2 :: QuotationItem where
  "item2 = \<lparr>qi_id = ''i2'', qi_productId = ''p2'', qi_productName = ''Pipe'',
            qi_description = '''', qi_quantity = Fin 1, qi_unit = ''m'',
            qi_unitPrice = Fin 5, qi_discountRate = Fin 0, qi_discountAmount = Fin 0,
            qi_totalPrice = Fin 5\<rparr>"

definition quotation1 :: Quotation where
  "quotation1 =
     \<lparr>q_id = ''q1'', q_quotationNumber = ''QT-001'', q_companyId = ''a'', q_customerId = ''k1'',
      q_quotationDate = ''2025-01-01'', q_expiryDate = ''2025-01-31'', q_currency = ''USD'',
      q_paymentTerms = ''T/T'', q_deliveryTerms = ''30 days'', q_pickupLocation = ''Ningbo'',
      q_tradeTerms = ''FOB'', q_subtotal = Fin 25, q_taxRate = Fin 0, q_taxAmount = Fin 0,
      q_totalAmount = Fin 25, q_status = ''draft'', q_notes = '''',
      q_items = [item1, item2]\<rparr>"

definition env_q1 :: env where
  \<comment> \<open>the empty browser after \<open>quotation1\<close>, with its two items, has been saved\<close>
  "env_q1 = snd (saveQuotation env0 quotation1)"

definition number_defined :: "jsnum \<Rightarrow> bool" where
  "number_defined n = (n \<noteq> NaN)"

definition item_defined :: "QuotationItem \<Rightarrow> bool" where
  \<comment> \<open>every numeric field of the item holds a number, not \<^verbatim>\<open>NaN\<close>\<close>
  "item_defined item =
     (number_defined (qi_quantity item) \<and> number_defined (qi_unitPrice item)
      \<and> number_defined (qi_discountRate item) \<and> number_defined (qi_discountAmount item)
      \<and> number_defined (qi_totalPrice item))"

definition wb_items :: workbook where
  \<comment> \<open>a workbook whose item sheet holds one item of quotation \<open>q1\<close> and one of \<open>q2\<close>\<close>
  "wb_items =
     fresh_workbook\<lparr>Sheets := (Sheets fresh_workbook)(''QuotationItem'' \<mapsto>
        [getQuotationItemHeaders, item_row ''q1'' item1, item_row ''q2'' item2])\<rparr>"

definition env_items :: env where
  "env_items = env0\<lparr>storage := [''quotation_system_data:default'' \<mapsto> Base64 wb_items]\<rparr>"

fun is_id :: "cell \<Rightarrow> bool" where
  \<comment> \<open>an identifier as the pages generate it: a non-empty string\<close>
  "is_id (Str s) = (s \<noteq> [])"
| "is_id _ = False"

definition row_ids :: "sheet \<Rightarrow> cell list" where
  "row_ids rows = map (\<lambda>row. cell_at row 0) rows"

definition keyed :: "sheet \<Rightarrow> bool" where
  \<comment> \<open>every row starts with an identifier, and no identifier occurs twice\<close>
  "keyed rows = (list_all is_id (row_ids rows) \<and> distinct (row_ids rows))"

fun plain :: "cell \<Rightarrow> bool" where
  \<comment> \<open>a cell that the writer accepts and the reader gives back as it was: a text has at
      most 32767 characters and no escape \<^verbatim>\<open>_xHHHH_\<close>\<close>
  "plain (Str s) = (int (length s) \<le> 32767 \<and> \<not> has_escape s)"
| "plain c = True"

definition company_named :: "string \<Rightarrow> bool \<Rightarrow> Company" where
  \<comment> \<open>a company with a given id and default flag, no intermediary bank and no logo\<close>
  "company_named i d =
     \<lparr>c_id = Str i, c_name = Str ''Acme'', c_nameEn = Str ''Acme Ltd'', c_address = Str ''1 Road'',
      c_addressEn = Str ''1 Road'', c_phone = Str ''123'', c_email = Str ''a@b.c'',
      c_website = Str '''', c_taxNumber = Str ''T1'', c_bankName = Str ''Bank'',
      c_bankAccount = Str ''001'', c_swiftCode = Str ''SW'', c_intermediaryBank = Undefined,
      c_logo = Undefined, c_isDefault = d\<rparr>"

definition wb_companies :: workbook where
  \<comment> \<open>companies \<open>a\<close> and \<open>b\<close>, both flagged as the default\<close>
  "wb_companies =
     fresh_workbook\<lparr>Sheets := (Sheets fresh_workbook)(''CompanyInfo'' \<mapsto>
        [getCompanyHeaders, company_row (company_named ''a'' True),
         company_row (company_named ''b'' True)])\<rparr>"

definition env_companies :: env where
  "env_companies = env0\<lparr>storage := [''quotation_system_data:default'' \<mapsto> Base64 wb_companies]\<rparr>"

definition state_companies :: CompanyState where
  \<comment> \<open>the store after \<^verbatim>\<open>loadCompanies\<close> on \<open>env_companies\<close>\<close>
  "state_companies = fst (loadCompanies
     (\<lparr>companies = [], currentCompany = None, loading = False, error = None\<rparr>, env_companies))"

section \<open>PDFService: composing the quotation document\<close>

text \<open>
  \<^verbatim>\<open>generateQuotationHTML\<close> returns one template literal. Its value is modelled as the
  sequence of its parts: the static stretches of the template (\<open>Markup\<close>) and the values
  interpolated between them (\<open>Value\<close>). The text of the document is the concatenation of
  the parts in order, so equal sequences are equal documents. Static stretches are
  written without their blanks, comments and attribute quotes, with the style sheet
  elided and the Chinese labels glossed.
\<close>

datatype piece = Markup string | Value string

datatype logo_position = Left | Center | Right

record PDFOptions =
  logoPosition :: "logo_position option"
  showProductImages :: "bool option"

record CompanyInfo =
  ci_name :: string
  ci_nameEn :: string
  ci_address :: string
  ci_addressEn :: string
  ci_phone :: string
  ci_email :: string
  ci_website :: string
  ci_taxNumber :: string
  ci_bankName :: string
  ci_bankAccount :: string
  ci_swiftCode :: string
  ci_intermediaryBank :: "string option"
  ci_logo :: "string option"

record CustomerInfo =
  cu_name :: string
  cu_companyName :: string
  cu_address :: string
  cu_country :: string
  cu_contactPerson :: string
  cu_email :: string
  cu_phone :: string

record LineItem =
  li_productName :: string
  li_description :: string
  li_quantity :: jsnum
  li_unit :: string
  li_unitPrice :: jsnum
  li_totalPrice :: jsnum
  li_images :: "string list option"

record QuotationData =
  qd_quotationNumber :: string
  qd_quotationDate :: string
  qd_expiryDate :: string
  qd_currency :: string
  qd_pickupLocation :: string
  qd_tradeTerms :: string
  qd_paymentTerms :: string
  qd_deliveryTerms :: string
  qd_items :: "LineItem list"
  qd_subtotal :: jsnum
  qd_taxRate :: jsnum
  qd_taxAmount :: jsnum
  qd_totalAmount :: jsnum
  qd_notes :: string

definition pad_left :: "nat \<Rightarrow> string \<Rightarrow> string" where
  "pad_left n s = replicate (n - length s) CHR ''0'' @ s"

fun toFixed2 :: "jsnum \<Rightarrow> string" where
  \<comment> \<open>\<^verbatim>\<open>x.toFixed(2)\<close>: the nearest multiple of a hundredth, the larger one on a tie
      (values below \<open>1e21\<close>)\<close>
  "toFixed2 NaN = ''NaN''"
| "toFixed2 PosInf = ''Infinity''"
| "toFixed2 NegInf = ''-Infinity''"
| "toFixed2 (Fin q) =
     (let n = nat \<lfloor>\<bar>q\<bar> * 100 + 1 / 2\<rfloor>;
          ds = pad_left 3 (string_of_nat n)
      in (if q < 0 then ''-'' else '''')
         @ take (length ds - 2) ds @ ''.'' @ drop (length ds - 2) ds)"

fun positive :: "jsnum \<Rightarrow> bool" where
  \<comment> \<open>\<^verbatim>\<open>x > 0\<close>\<close>
  "positive NaN = False"
| "positive PosInf = True"
| "positive NegInf = False"
| "positive (Fin q) = (q > 0)"

definition present :: "string option \<Rightarrow> bool" where
  \<comment> \<open>truthiness of an optional string\<close>
  "present s = (case s of None \<Rightarrow> False | Some t \<Rightarrow> t \<noteq> [])"

definition logoHtml :: "CompanyInfo \<Rightarrow> piece list" where
  "logoHtml company =
     (if present (ci_logo company)
      then [Markup ''<img src='', Value (the (ci_logo company)),
            Markup '' alt=Company Logo class=logo>'']
      else [])"

definition logoContainer :: "CompanyInfo \<Rightarrow> PDFOptions \<Rightarrow> piece list" where
  "logoContainer company options =
     (if logoPosition options = Some Center
      then [Markup ''<div style=text-align:center; margin-bottom:10px;>'']
           @ logoHtml company @ [Markup ''</div>'']
      else [])"

definition item_images :: "PDFOptions \<Rightarrow> LineItem \<Rightarrow> piece list" where
  "item_images options item =
     (if showProductImages options = Some True \<and> li_images item \<noteq> None
         \<and> length (the (li_images item)) \<noteq> 0
      then [Markup ''<div style=margin-top:6px; display:flex; gap:6px; flex-wrap:wrap;>'']
           @ concat (map (\<lambda>src. [Markup ''<img src='', Value src,
                                   Markup '' style=width:60px;height:60px;object-fit:contain;border:1px solid #eee;padding:2px; />''])
                       (take 3 (the (li_images item))))
           @ [Markup ''</div>'']
      else [])"

definition item_html :: "PDFOptions \<Rightarrow> string \<Rightarrow> nat \<times> LineItem \<Rightarrow> piece list" where
  "item_html options currency p =
     (let (index, item) = p in
      [Markup ''<tr><td class=number>'', Value (string_of_nat (index + 1)),
       Markup ''</td><td>'', Value (li_productName item),
       Markup ''</td><td class=description>'', Value (li_description item)]
      @ item_images options item
      @ [Markup ''</td><td class=number>'', Value (num_to_string (li_quantity item)),
         Markup ''</td><td>'', Value (li_unit item),
         Markup ''</td><td class=number>'', Value currency, Markup '' '',
         Value (toFixed2 (li_unitPrice item)),
         Markup ''</td><td class=number>'', Value currency, Markup '' '',
         Value (toFixed2 (li_totalPrice item)), Markup ''</td></tr>''])"

definition generateQuotationHTML ::
  "CompanyInfo \<Rightarrow> CustomerInfo \<Rightarrow> QuotationData \<Rightarrow> PDFOptions \<Rightarrow> piece list" where
  "generateQuotationHTML company customer quotation options =
     [Markup ''<!DOCTYPE html><html lang=en><head><meta charset=UTF-8><meta name=viewport content=width=device-width, initial-scale=1.0><title>QUOTATION - '',
      Value (qd_quotationNumber quotation),
      Markup ''</title><style>...</style></head><body><div class=container>'']
     @ logoContainer company options
     @ [Markup ''<div class=header><div class=company-info><div class=company-name>'',
        Value (ci_name company),
        Markup ''</div><div class=company-name-en>'', Value (ci_nameEn company),
        Markup ''</div><div class=company-details><div>Address (zh): '',
        Value (ci_address company),
        Markup ''</div><div>Address: '', Value (ci_addressEn company),
        Markup ''</div><div>Phone (zh): '', Value (ci_phone company),
        Markup ''</div><div>Email (zh): '', Value (ci_email company),
        Markup ''</div><div>Website (zh): '', Value (ci_website company),
        Markup ''</div><div>Tax number (zh): '', Value (ci_taxNumber company),
        Markup ''</div></div></div>'']
     @ (if logoPosition options = Some Left then logoHtml company
        else if logoPosition options = Some Right then logoHtml company
        else [])
     @ [Markup ''</div><div class=title>QUOTATION</div><div class=info-section><div class=info-block><h3>To: '',
        Value (cu_name customer),
        Markup ''</h3><div class=info-row><span class=info-label>Company:</span><span class=info-value>'',
        Value (cu_companyName customer),
        Markup ''</span></div><div class=info-row><span class=info-label>Address:</span><span class=info-value>'',
        Value (cu_address customer),
        Markup ''</span></div><div class=info-row><span class=info-label>Country:</span><span class=info-value>'',
        Value (cu_country customer),
        Markup ''</span></div><div class=info-row><span class=info-label>Contact:</span><span class=info-value>'',
        Value (cu_contactPerson customer),
        Markup ''</span></div><div class=info-row><span class=info-label>Email:</span><span class=info-value>'',
        Value (cu_email customer),
        Markup ''</span></div><div class=info-row><span class=info-label>Phone:</span><span class=info-value>'',
        Value (cu_phone customer),
        Markup ''</span></div></div><div class=info-block><h3>Quotation Details</h3><div class=info-row><span class=info-label>PI No:</span><span class=info-value>'',
        Value (qd_quotationNumber quotation),
        Markup ''</span></div><div class=info-row><span class=info-label>Date:</span><span class=info-value>'',
        Value (qd_quotationDate quotation),
        Markup ''</span></div><div class=info-row><span class=info-label>Expiry:</span><span class=info-value>'',
        Value (qd_expiryDate quotation),
        Markup ''</span></div><div class=info-row><span class=info-label>Currency:</span><span class=info-value>'',
        Value (qd_currency quotation),
        Markup ''</span></div><div class=info-row><span class=info-label>Pickup:</span><span class=info-value>'',
        Value (qd_pickupLocation quotation),
        Markup ''</span></div><div class=info-row><span class=info-label>Terms:</span><span class=info-value>'',
        Value (qd_tradeTerms quotation),
        Markup ''</span></div></div></div><table class=items-table><thead><tr><th>No.</th><th>Product</th><th>Description</th><th>Quantity</th><th>Unit</th><th>Unit Price</th><th>Amount</th></tr></thead><tbody>'']
     @ concat (map (item_html options (qd_currency quotation))
                 (enumerate 0 (qd_items quotation)))
     @ [Markup ''</tbody></table><div class=totals><div class=total-row><span>Subtotal:</span><span>'',
        Value (qd_currency quotation), Markup '' '', Value (toFixed2 (qd_subtotal quotation)),
        Markup ''</span></div>'']
     @ (if positive (qd_taxRate quotation)
        then [Markup ''<div class=total-row><span>Tax ('',
              Value (num_to_string (qd_taxRate quotation)),
              Markup ''%):</span><span>'', Value (qd_currency quotation), Markup '' '',
              Value (toFixed2 (qd_taxAmount quotation)), Markup ''</span></div>'']
        else [])
     @ [Markup ''<div class=total-row><span>Total:</span><span>'',
        Value (qd_currency quotation), Markup '' '',
        Value (toFixed2 (qd_totalAmount quotation)),
        Markup ''</span></div></div><div class=terms-section><h3>Terms and Conditions</h3><div class=terms-content>1. PAYMENT TERMS: '',
        Value (qd_paymentTerms quotation),
        Markup ''2. DELIVERY TERMS: '', Value (qd_deliveryTerms quotation),
        Markup ''3. VALIDITY: This quotation is valid until '',
        Value (qd_expiryDate quotation)]
     @ (if qd_notes quotation \<noteq> []
        then [Markup ''4. NOTES: '', Value (qd_notes quotation)]
        else [])
     @ [Markup ''</div></div><div class=bank-info><h3>Bank Information</h3><div class=bank-details><div><strong>Bank Name:</strong> '',
        Value (ci_bankName company),
        Markup ''</div><div><strong>Account Number:</strong> '', Value (ci_bankAccount company),
        Markup ''</div><div><strong>SWIFT Code:</strong> '', Value (ci_swiftCode company),
        Markup ''</div>'']
     @ (if present (ci_intermediaryBank company)
        then [Markup ''<div><strong>Intermediary Bank:</strong> '',
              Value (the (ci_intermediaryBank company)), Markup ''</div>'']
        else [])
     @ [Markup ''</div></div><div class=signature-section><div class=signature-block><div class=signature-title>Seller</div><div class=signature-line>Signature & Date</div></div><div class=signature-block><div class=signature-title>Buyer</div><div class=signature-line>Signature & Date</div></div></div><div class=footer>This document is generated by Quotation System. For questions, please contact '',
        Value (ci_email company),
        Markup ''</div></div></body></html>'']"

section \<open>PDFService: rendering the document\<close>

text \<open>
  \<^verbatim>\<open>generatePDF\<close> attaches an off-screen \<^verbatim>\<open>iframe\<close> to the page, writes the document into
  it, and settles its promise from the event handlers of the frame. What the browser
  does with the frame is the environment's choice: it gives the frame no document, or
  the frame fails to load, or it loads and the capture and encoding in the handler
  either throw or produce the page. The page is kept as the configuration and the
  document it was rendered from.
\<close>

datatype PDFTemplate = quotation_t | invoice_t | proforma_t

datatype page_format = A4 | Letter

datatype page_orientation = portrait | landscape

record margins =
  top :: rat
  right :: rat
  bottom :: rat
  left :: rat

record PDFConfig =
  pdf_template :: PDFTemplate
  pdf_format :: page_format
  pdf_orientation :: page_orientation
  pdf_margin :: margins

record PartialPDFConfig =
  opt_template :: "PDFTemplate option"
  opt_format :: "page_format option"
  opt_orientation :: "page_orientation option"
  opt_margin :: "margins option"

datatype blob = PdfBlob PDFConfig "piece list"

datatype browser = NoDocument | LoadError | Loaded "error option"

record page =
  attached :: "nat list"
  created :: nat

definition defaultConfig :: PDFConfig where
  "defaultConfig =
     \<lparr>pdf_template = quotation_t, pdf_format = A4, pdf_orientation = portrait,
      pdf_margin = \<lparr>top = 20, right = 20, bottom = 20, left = 20\<rparr>\<rparr>"

definition finalConfig :: "PartialPDFConfig \<Rightarrow> PDFTemplate \<Rightarrow> PDFConfig" where
  \<comment> \<open>\<^verbatim>\<open>{ ...this.defaultConfig, ...config, template }\<close>\<close>
  "finalConfig config t =
     \<lparr>pdf_template = t,
      pdf_format = (case opt_format config of None \<Rightarrow> pdf_format defaultConfig | Some f \<Rightarrow> f),
      pdf_orientation =
        (case opt_orientation config of None \<Rightarrow> pdf_orientation defaultConfig | Some x \<Rightarrow> x),
      pdf_margin = (case opt_margin config of None \<Rightarrow> pdf_margin defaultConfig | Some m \<Rightarrow> m)\<rparr>"

definition appendChild :: "page \<Rightarrow> nat \<Rightarrow> page" where
  "appendChild p iframe = p\<lparr>attached := attached p @ [iframe]\<rparr>"

definition removeChild :: "page \<Rightarrow> nat \<Rightarrow> page" where
  "removeChild p iframe = p\<lparr>attached := remove1 iframe (attached p)\<rparr>"

definition createElement :: "page \<Rightarrow> nat \<times> page" where
  \<comment> \<open>a new frame, not yet attached; frames are numbered in the order of creation\<close>
  "createElement p = (created p, p\<lparr>created := Suc (created p)\<rparr>)"

definition generatePDF :: "piece list \<Rightarrow> PDFConfig \<Rightarrow> browser \<Rightarrow> page \<Rightarrow> (error + blob) \<times> page" where
  \<comment> \<open>what the promise settles to (\<open>Inl\<close> for \<^verbatim>\<open>reject\<close>, \<open>Inr\<close> for \<^verbatim>\<open>resolve\<close>) and the page
      afterwards\<close>
  "generatePDF htmlContent config b p =
     (let (iframe, p0) = createElement p;
          p1 = appendChild p0 iframe
      in case b of
           NoDocument \<Rightarrow> (Inl (Error ''cannot create the iframe document''), p1)
         | LoadError \<Rightarrow> (Inl (Error ''iframe failed to load''), removeChild p1 iframe)
         | Loaded (Some err) \<Rightarrow> (Inl err, removeChild p1 iframe)
         | Loaded None \<Rightarrow> (Inr (PdfBlob config htmlContent), removeChild p1 iframe))"

definition generateQuotationPDF ::
  "CompanyInfo \<Rightarrow> CustomerInfo \<Rightarrow> QuotationData \<Rightarrow> PartialPDFConfig \<Rightarrow> PDFOptions
     \<Rightarrow> browser \<Rightarrow> page \<Rightarrow> (error + blob) \<times> page" where
  "generateQuotationPDF company customer quotation config options b p =
     generatePDF (generateQuotationHTML company customer quotation options)
       (finalConfig config quotation_t) b p"

definition page0 :: page where
  \<comment> \<open>a page with no frame attached\<close>
  "page0 = \<lparr>attached = [], created = 0\<rparr>"

section \<open>JSON text\<close>

text \<open>
  A product's specification map and image list are kept in one cell each, as the text
  that \<^verbatim>\<open>JSON.stringify\<close> gives and \<^verbatim>\<open>JSON.parse\<close> reads. Strings hold code units below
  256 (the type \<open>char\<close>), so an escape \<^verbatim>\<open>\uXXXX\<close> beyond that is outside the model. The
  parser is recursive descent with a budget of calls; \<^verbatim>\<open>JSON_parse\<close> gives it a budget
  that no text can exhaust, and \<open>None\<close> stands for the \<^verbatim>\<open>SyntaxError\<close> it throws.
\<close>

datatype json =
  JNull | JBool bool | JNum jsnum | JStr string | JArr "json list" | JObj "(string \<times> json) list"

definition hex_char :: "nat \<Rightarrow> char" where
  "hex_char d = (if d < 10 then char_of (48 + d) else char_of (87 + d))"

definition quote_char :: "char \<Rightarrow> string" where
  \<comment> \<open>one code unit inside \<^verbatim>\<open>QuoteJSONString\<close>\<close>
  "quote_char c =
     (let n = (of_char c :: nat) in
      if n = 34 then [CHR 0x5C, CHR 0x22]
      else if n = 92 then [CHR 0x5C, CHR 0x5C]
      else if n = 8 then [CHR 0x5C, CHR ''b'']
      else if n = 12 then [CHR 0x5C, CHR ''f'']
      else if n = 10 then [CHR 0x5C, CHR ''n'']
      else if n = 13 then [CHR 0x5C, CHR ''r'']
      else if n = 9 then [CHR 0x5C, CHR ''t'']
      else if n < 32 then [CHR 0x5C, CHR ''u'', CHR ''0'', CHR ''0'', hex_char (n div 16), hex_char (n mod 16)]
      else [c])"

definition quote :: "string \<Rightarrow> string" where
  "quote s = [CHR 0x22] @ concat (map quote_char s) @ [CHR 0x22]"

fun json_number :: "jsnum \<Rightarrow> string" where
  "json_number (Fin q) = num_to_string (Fin q)"
| "json_number _ = ''null''"

fun JSON_stringify :: "json \<Rightarrow> string"
  and stringify_elements :: "json list \<Rightarrow> string"
  and stringify_members :: "(string \<times> json) list \<Rightarrow> string" where
  "JSON_stringify JNull = ''null''"
| "JSON_stringify (JBool b) = (if b then ''true'' else ''false'')"
| "JSON_stringify (JNum n) = json_number n"
| "JSON_stringify (JStr s) = quote s"
| "JSON_stringify (JArr vs) = ''['' @ stringify_elements vs @ '']''"
| "JSON_stringify (JObj ms) = ''{'' @ stringify_members ms @ ''}''"
| "stringify_elements [] = []"
| "stringify_elements (v # vs) =
     JSON_stringify v @ (if vs = [] then [] else '','' @ stringify_elements vs)"
| "stringify_members [] = []"
| "stringify_members (m # ms) =
     quote (fst m) @ '':'' @ JSON_stringify (snd m)
     @ (if ms = [] then [] else '','' @ stringify_members ms)"

definition is_json_ws :: "char \<Rightarrow> bool" where
  "is_json_ws c = (of_char c \<in> {9::nat, 10, 13, 32})"

definition skip_ws :: "string \<Rightarrow> string" where
  "skip_ws s = dropWhile is_json_ws s"

definition unescape :: "char \<Rightarrow> char option" where
  \<comment> \<open>the character after a backslash, for the single-character escapes\<close>
  "unescape c =
     (if c = CHR 0x22 \<or> c = CHR 0x5C \<or> c = CHR ''/'' then Some c
      else if c = CHR ''b'' then Some (CHR 0x08)
      else if c = CHR ''f'' then Some (CHR 0x0C)
      else if c = CHR ''n'' then Some (CHR 0x0A)
      else if c = CHR ''r'' then Some (CHR 0x0D)
      else if c = CHR ''t'' then Some (CHR 0x09)
      else None)"

fun parse_chars :: "string \<Rightarrow> string \<Rightarrow> (string \<times> string) option" where
  \<comment> \<open>the characters of a string literal after its opening quote, up to the closing one\<close>
  "parse_chars acc [] = None"
| "parse_chars acc (c # r) =
     (if c = CHR 0x22 then Some (acc, r)
      else if c = CHR 0x5C then
        (case r of
           [] \<Rightarrow> None
         | e # r1 \<Rightarrow>
             if e = CHR ''u'' then
               (case hex4 r1 of
                  None \<Rightarrow> None
                | Some n \<Rightarrow> if n < 256 then parse_chars (acc @ [char_of n]) (drop 4 r1) else None)
             else (case unescape e of
                     None \<Rightarrow> None
                   | Some x \<Rightarrow> parse_chars (acc @ [x]) r1))
      else if (of_char c :: nat) < 32 then None
      else parse_chars (acc @ [c]) r)"

definition scan_json_number :: "string \<Rightarrow> (jsnum \<times> string) option" where
  \<comment> \<open>a JSON number: an optional minus, an integer part without a leading zero, an
      optional fraction with digits, an optional exponent\<close>
  "scan_json_number s =
     (let (neg, r) = (case s of c # t \<Rightarrow> if c = CHR ''-'' then (True, t) else (False, s)
                      | [] \<Rightarrow> (False, s));
          ds = takeWhile is_digit r; r1 = dropWhile is_digit r
      in if ds = [] \<or> (length ds > 1 \<and> hd ds = CHR ''0'') then None
         else
           (case (case r1 of
                    c # t \<Rightarrow> if c = CHR ''.'' then
                               (if takeWhile is_digit t = [] then None
                                else Some (takeWhile is_digit t, dropWhile is_digit t))
                             else Some ([], r1)
                  | [] \<Rightarrow> Some ([], r1)) of
              None \<Rightarrow> None
            | Some (fs, r2) \<Rightarrow>
                (let (e, r3) = scan_exponent r2;
                     m = of_nat (digits_value ds) + of_nat (digits_value fs) / 10 ^ length fs;
                     v = scale10 m e
                 in Some (Fin (if neg then - v else v), r3))))"

fun parse_value :: "nat \<Rightarrow> string \<Rightarrow> (json \<times> string) option"
  and parse_elements :: "nat \<Rightarrow> json list \<Rightarrow> string \<Rightarrow> (json \<times> string) option"
  and parse_members :: "nat \<Rightarrow> (string \<times> json) list \<Rightarrow> string \<Rightarrow> (json \<times> string) option" where
  "parse_value 0 s = None"
| "parse_value (Suc k) s =
     (case skip_ws s of
        [] \<Rightarrow> None
      | c # r \<Rightarrow>
          if c = CHR 0x22 then
            (case parse_chars [] r of None \<Rightarrow> None | Some (t, r1) \<Rightarrow> Some (JStr t, r1))
          else if c = CHR ''['' then
            (case skip_ws r of
               [] \<Rightarrow> None
             | d # r1 \<Rightarrow> if d = CHR '']'' then Some (JArr [], r1) else parse_elements k [] r)
          else if c = CHR ''{'' then
            (case skip_ws r of
               [] \<Rightarrow> None
             | d # r1 \<Rightarrow> if d = CHR ''}'' then Some (JObj [], r1) else parse_members k [] r)
          else if take 4 (c # r) = ''null'' then Some (JNull, drop 4 (c # r))
          else if take 4 (c # r) = ''true'' then Some (JBool True, drop 4 (c # r))
          else if take 5 (c # r) = ''false'' then Some (JBool False, drop 5 (c # r))
          else (case scan_json_number (c # r) of
                  None \<Rightarrow> None
                | Some (n, r1) \<Rightarrow> Some (JNum n, r1)))"
| "parse_elements 0 acc s = None"
| "parse_elements (Suc k) acc s =
     (case parse_value k s of
        None \<Rightarrow> None
      | Some (v, r) \<Rightarrow>
          (case skip_ws r of
             [] \<Rightarrow> None
           | c # r1 \<Rightarrow>
               if c = CHR '','' then parse_elements k (acc @ [v]) r1
               else if c = CHR '']'' then Some (JArr (acc @ [v]), r1)
               else None))"
| "parse_members 0 acc s = None"
| "parse_members (Suc k) acc s =
     (case skip_ws s of
        [] \<Rightarrow> None
      | q # r \<Rightarrow>
          if q \<noteq> CHR 0x22 then None
          else
            (case parse_chars [] r of
               None \<Rightarrow> None
             | Some (key, r1) \<Rightarrow>
                 (case skip_ws r1 of
                    [] \<Rightarrow> None
                  | c # r2 \<Rightarrow>
                      if c \<noteq> CHR '':'' then None
                      else
                        (case parse_value k r2 of
                           None \<Rightarrow> None
                         | Some (v, r3) \<Rightarrow>
                             (case skip_ws r3 of
                                [] \<Rightarrow> None
                              | d # r4 \<Rightarrow>
                                  if d = CHR '','' then parse_members k (acc @ [(key, v)]) r4
                                  else if d = CHR ''}'' then Some (JObj (acc @ [(key, v)]), r4)
                                  else None)))))"

definition JSON_parse :: "string \<Rightarrow> json option" where
  \<comment> \<open>one value, with nothing but blanks after it\<close>
  "JSON_parse s =
     (case parse_value (2 * length s + 2) s of
        None \<Rightarrow> None
      | Some (v, r) \<Rightarrow> if skip_ws r = [] then Some v else None)"

fun truthy_json :: "json \<Rightarrow> bool" where
  "truthy_json JNull = False"
| "truthy_json (JBool b) = b"
| "truthy_json (JNum n) = truthy (Num n)"
| "truthy_json (JStr s) = (s \<noteq> [])"
| "truthy_json _ = True"

section \<open>ExcelService: products\<close>

text \<open>
  As for a company, the text fields of a decoded product hold whatever the cells held.
  The prices go through \<^verbatim>\<open>parseFloat\<close> and are numbers; the image list is whatever value
  the cell's text parses to; \<open>None\<close> is a product without the \<^verbatim>\<open>images\<close> property.
\<close>

record Product =
  p_id :: cell
  p_name :: cell
  p_nameEn :: cell
  p_description :: cell
  p_descriptionEn :: cell
  p_category :: cell
  p_unit :: cell
  p_minPrice :: jsnum
  p_maxPrice :: jsnum
  p_currency :: cell
  p_specifications :: json
  p_isActive :: bool
  p_images :: "json option"

definition float_or_zero :: "cell \<Rightarrow> jsnum" where
  \<comment> \<open>\<^verbatim>\<open>parseFloat(c || '0')\<close>\<close>
  "float_or_zero c = parseFloat (js_or c (Str ''0''))"

definition parse_images :: "cell \<Rightarrow> json" where
  \<comment> \<open>\<^verbatim>\<open>try { JSON.parse(c || '[]') } catch { [] }\<close>\<close>
  "parse_images c =
     (case JSON_parse (js_String (js_or c (Str ''[]''))) of None \<Rightarrow> JArr [] | Some v \<Rightarrow> v)"

definition product_of_row :: "cell list \<Rightarrow> cell list \<Rightarrow> Product" where
  "product_of_row headers row =
     \<lparr>p_id = js_or (field headers row ''ID'') (Str ''''),
      p_name = js_or (field headers row ''ProductName'') (Str ''''),
      p_nameEn = js_or (field headers row ''EnglishName'') (Str ''''),
      p_description = js_or (field headers row ''ProductDescription'') (Str ''''),
      p_descriptionEn = js_or (field headers row ''EnglishDescription'') (Str ''''),
      p_category = js_or (field headers row ''Category'') (Str ''''),
      p_unit = js_or (field headers row ''Unit'') (Str ''''),
      p_minPrice = float_or_zero (field headers row ''MinPrice''),
      p_maxPrice = float_or_zero (field headers row ''MaxPrice''),
      p_currency = js_or (field headers row ''Currency'') (Str ''USD''),
      p_specifications = JObj [],
      p_isActive = strict_eq (field headers row ''IsActive'') (Str ''Yes''),
      p_images = (if indexOf headers (Str ''Images'') \<ge> 0
                  then Some (parse_images (field headers row ''Images''))
                  else None)\<rparr>"

definition getProducts :: "env \<Rightarrow> Product list \<times> env" where
  "getProducts e =
     (let (workbook, e1) = readFromLocalStorage e in
      case workbook of
        None \<Rightarrow> ([], e1)
      | Some wb \<Rightarrow> (rows_of wb ''ProductLibrary'' product_of_row, e1))"

definition images_or_empty :: "json option \<Rightarrow> json" where
  \<comment> \<open>\<^verbatim>\<open>product.images || []\<close>\<close>
  "images_or_empty images =
     (case images of None \<Rightarrow> JArr [] | Some v \<Rightarrow> if truthy_json v then v else JArr [])"

definition product_row :: "Product \<Rightarrow> cell list" where
  "product_row product =
     [p_id product, p_name product, p_nameEn product, p_description product,
      p_descriptionEn product, p_category product, p_unit product,
      Num (p_minPrice product), Num (p_maxPrice product), p_currency product,
      Str (JSON_stringify (p_specifications product)),
      Str (if p_isActive product then ''Yes'' else ''No''),
      Str (JSON_stringify (images_or_empty (p_images product)))]"

definition saveProduct :: "env \<Rightarrow> Product \<Rightarrow> error option \<times> env" where
  "saveProduct e product =
     (let (workbook, e1) = readFromLocalStorage e in
      case workbook of
        None \<Rightarrow> (Some cannot_read, e1)
      | Some wb \<Rightarrow>
          (let data = sheet_or wb ''ProductLibrary'' getProductHeaders;
               data' = upsert data (p_id product) (product_row product)
           in persist e1 (wb\<lparr>Sheets := (Sheets wb)(''ProductLibrary'' \<mapsto> data')\<rparr>)))"

section \<open>ExcelService: customers\<close>

record Customer =
  k_id :: string
  k_name :: string
  k_contactPerson :: string
  k_email :: string
  k_phone :: string
  k_address :: string
  k_country :: string
  k_companyName :: string
  k_taxNumber :: string
  k_notes :: string

definition customer_of_row :: "cell list \<Rightarrow> cell list \<Rightarrow> Customer" where
  "customer_of_row headers row =
     \<lparr>k_id = text_or (field headers row ''ID'') '''',
      k_name = text_or (field headers row ''CustomerName'') '''',
      k_contactPerson = text_or (field headers row ''ContactPerson'') '''',
      k_email = text_or (field headers row ''Email'') '''',
      k_phone = text_or (field headers row ''Phone'') '''',
      k_address = text_or (field headers row ''Address'') '''',
      k_country = text_or (field headers row ''Country'') '''',
      k_companyName = text_or (field headers row ''CompanyName'') '''',
      k_taxNumber = text_or (field headers row ''TaxNumber'') '''',
      k_notes = text_or (field headers row ''Notes'') ''''\<rparr>"

definition getCustomerById :: "env \<Rightarrow> string \<Rightarrow> Customer option \<times> env" where
  "getCustomerById e customerId =
     (let (workbook, e1) = readFromLocalStorage e in
      case workbook of
        None \<Rightarrow> (None, e1)
      | Some wb \<Rightarrow>
          (case Sheets wb ''CustomerInfo'' of
             None \<Rightarrow> (None, e1)
           | Some data \<Rightarrow>
               if length data \<le> 1 then (None, e1)
               else (map_option (customer_of_row (hd data))
                       (find (\<lambda>row. strict_eq (field (hd data) row ''ID'') (Str customerId))
                          (tl data)), e1)))"

definition customer_row :: "Customer \<Rightarrow> cell list" where
  "customer_row customer =
     [Str (k_id customer), Str (k_name customer), Str (k_contactPerson customer),
      Str (k_email customer), Str (k_phone customer), Str (k_address customer),
      Str (k_country customer), Str (k_companyName customer), Str (k_taxNumber customer),
      Str (k_notes customer)]"

definition saveCustomer :: "env \<Rightarrow> Customer \<Rightarrow> error option \<times> env" where
  "saveCustomer e customer =
     (let (workbook, e1) = readFromLocalStorage e in
      case workbook of
        None \<Rightarrow> (Some cannot_read, e1)
      | Some wb \<Rightarrow>
          (let data = sheet_or wb ''CustomerInfo'' getCustomerHeaders;
               data' = upsert data (Str (k_id customer)) (customer_row customer)
           in persist e1 (wb\<lparr>Sheets := (Sheets wb)(''CustomerInfo'' \<mapsto> data')\<rparr>)))"

section \<open>The product store\<close>

record ProductState =
  products :: "Product list"
  categories :: "cell list"
  ps_loading :: bool
  ps_error :: "error option"

definition loadProducts :: "ProductState \<times> env \<Rightarrow> ProductState \<times> env" where
  "loadProducts se =
     (let (st, e) = se;
          (ps, e1) = getProducts e
      in (st\<lparr>products := ps,
              categories := rev (remdups (rev (filter truthy (map p_category ps)))),
              ps_loading := False, ps_error := None\<rparr>, e1))"

fun save_each_product :: "env \<Rightarrow> Product list \<Rightarrow> error option \<times> env" where
  "save_each_product e [] = (None, e)"
| "save_each_product e (product # rest) =
     (case saveProduct e product of
        (Some err, e1) \<Rightarrow> (Some err, e1)
      | (None, e1) \<Rightarrow> save_each_product e1 rest)"

definition deleteProduct ::
  "ProductState \<times> env \<Rightarrow> string \<Rightarrow> error option \<times> ProductState \<times> env" where
  "deleteProduct se productId =
     (let (st, e) = se;
          st1 = st\<lparr>ps_loading := True, ps_error := None\<rparr>;
          updatedProducts = filter (\<lambda>p. \<not> strict_eq (p_id p) (Str productId)) (products st)
      in case save_each_product e updatedProducts of
           (Some err, e1) \<Rightarrow> (Some err, st1\<lparr>ps_error := Some err, ps_loading := False\<rparr>, e1)
         | (None, e1) \<Rightarrow>
             (let (st2, e2) = loadProducts (st1, e1) in (None, st2\<lparr>ps_loading := False\<rparr>, e2)))"

section \<open>Well-formed records and further examples\<close>

definition numeric_start :: "char \<Rightarrow> bool" where
  \<comment> \<open>a character that a numeric text can start with, blanks included\<close>
  "numeric_start c =
     (is_ws c \<or> is_digit c \<or> c = CHR ''+'' \<or> c = CHR ''-'' \<or> c = CHR ''.'' \<or> c = CHR ''I'')"

fun is_text :: "cell \<Rightarrow> bool" where
  "is_text (Str s) = True"
| "is_text _ = False"

definition optional_text :: "cell \<Rightarrow> bool" where
  \<comment> \<open>an optional string property: a string, or \<^verbatim>\<open>undefined\<close>\<close>
  "optional_text c = (is_text c \<or> c = Undefined)"

definition wf_company :: "Company \<Rightarrow> bool" where
  \<comment> \<open>a company as the interface \<^verbatim>\<open>Company\<close> types it\<close>
  "wf_company c =
     (is_text (c_id c) \<and> is_text (c_name c) \<and> is_text (c_nameEn c) \<and> is_text (c_address c)
      \<and> is_text (c_addressEn c) \<and> is_text (c_phone c) \<and> is_text (c_email c)
      \<and> is_text (c_website c) \<and> is_text (c_taxNumber c) \<and> is_text (c_bankName c)
      \<and> is_text (c_bankAccount c) \<and> is_text (c_swiftCode c)
      \<and> optional_text (c_intermediaryBank c) \<and> optional_text (c_logo c))"

fun is_jstr :: "json \<Rightarrow> bool" where
  "is_jstr (JStr s) = True"
| "is_jstr _ = False"

fun string_array :: "json \<Rightarrow> bool" where
  \<comment> \<open>a value of type \<^verbatim>\<open>string[]\<close>\<close>
  "string_array (JArr vs) = list_all is_jstr vs"
| "string_array _ = False"

definition wf_product :: "Product \<Rightarrow> bool" where
  \<comment> \<open>a product as the interface \<^verbatim>\<open>Product\<close> types it, its prices being numbers\<close>
  "wf_product p =
     (is_text (p_id p) \<and> is_text (p_name p) \<and> is_text (p_nameEn p) \<and> is_text (p_description p)
      \<and> is_text (p_descriptionEn p) \<and> is_text (p_category p) \<and> is_text (p_unit p)
      \<and> number_defined (p_minPrice p) \<and> number_defined (p_maxPrice p) \<and> is_text (p_currency p)
      \<and> (case p_images p of None \<Rightarrow> True | Some v \<Rightarrow> string_array v))"

definition quotation_defined :: "Quotation \<Rightarrow> bool" where
  "quotation_defined q =
     (number_defined (q_subtotal q) \<and> number_defined (q_taxRate q)
      \<and> number_defined (q_taxAmount q) \<and> number_defined (q_totalAmount q))"

definition product1 :: Product where
  "product1 =
     \<lparr>p_id = Str ''p1'', p_name = Str ''Valve'', p_nameEn = Str ''Valve'',
      p_description = Str ''Brass valve'', p_descriptionEn = Str ''Brass valve'',
      p_category = Str ''Fittings'', p_unit = Str ''pcs'', p_minPrice = Fin 10,
      p_maxPrice = Fin (25 / 2), p_currency = Str ''USD'',
      p_specifications = JObj [(''color'', JStr ''red'')], p_isActive = True,
      p_images = Some (JArr [JStr ''a.png'', JStr ''b.png''])\<rparr>"

definition customer1 :: Customer where
  "customer1 =
     \<lparr>k_id = ''k1'', k_name = ''Buyer'', k_contactPerson = ''Ann'', k_email = ''ann@b.c'',
      k_phone = ''456'', k_address = ''2 Street'', k_country = ''NL'', k_companyName = ''Buyer BV'',
      k_taxNumber = '''', k_notes = ''''\<rparr>"

definition product_row_text_price :: "cell list" where
  \<comment> \<open>the row of \<open>product1\<close> with the text \<open>abc\<close> in the column of the lowest price\<close>
  "product_row_text_price = (product_row product1)[7 := Str ''abc'']"

definition item_row_text_quantity :: "cell list" where
  \<comment> \<open>the row of \<open>item1\<close> with the text \<open>abc\<close> in the column of the quantity\<close>
  "item_row_text_quantity = (item_row ''q1'' item1)[5 := Str ''abc'']"

definition wb_products :: workbook where
  "wb_products =
     fresh_workbook\<lparr>Sheets := (Sheets fresh_workbook)(''ProductLibrary'' \<mapsto>
        [getProductHeaders, product_row product1,
         product_row (product1\<lparr>p_id := Str ''p2''\<rparr>)])\<rparr>"

definition env_products :: env where
  "env_products = env0\<lparr>storage := [''quotation_system_data:default'' \<mapsto> Base64 wb_products]\<rparr>"

definition state_products :: ProductState where
  \<comment> \<open>the store after \<^verbatim>\<open>loadProducts\<close> on \<open>env_products\<close>\<close>
  "state_products = fst (loadProducts
     (\<lparr>products = [], categories = [], ps_loading = False, ps_error = None\<rparr>, env_products))"

section \<open>Properties of the workbook store\<close>

lemma fresh_names:
  "SheetNames fresh_workbook =
     [''CompanyInfo'', ''ProductLibrary'', ''CustomerInfo'', ''Quotation'', ''QuotationItem'',
      ''TermsTemplate'']"
  by (simp add: fresh_workbook_def book_append_sheet_def book_new_def)

lemma fresh_sheets:
  "Sheets fresh_workbook =
     [''CompanyInfo'' \<mapsto> [getCompanyHeaders], ''ProductLibrary'' \<mapsto> [getProductHeaders],
      ''CustomerInfo'' \<mapsto> [getCustomerHeaders], ''Quotation'' \<mapsto> [getQuotationHeaders],
      ''QuotationItem'' \<mapsto> [getQuotationItemHeaders], ''TermsTemplate'' \<mapsto> [getTemplateHeaders]]"
  by (simp add: fresh_workbook_def book_append_sheet_def book_new_def)

lemma unescapexml_plain: "\<not> has_escape s \<Longrightarrow> unescapexml s = s"
  by (induction s rule: unescapexml.induct) (simp_all del: escape_at.simps)

lemma unescapexml_length: "length (unescapexml s) \<le> length s"
  by (induction s rule: unescapexml.induct) (auto simp del: escape_at.simps split: option.splits)

lemma headers_read_back:
  "map read_back getCompanyHeaders = getCompanyHeaders"
  "map read_back getProductHeaders = getProductHeaders"
  "map read_back getCustomerHeaders = getCustomerHeaders"
  "map read_back getQuotationHeaders = getQuotationHeaders"
  "map read_back getQuotationItemHeaders = getQuotationItemHeaders"
  "map read_back getTemplateHeaders = getTemplateHeaders"
  by (simp_all add: getCompanyHeaders_def getProductHeaders_def getCustomerHeaders_def
      getQuotationHeaders_def getQuotationItemHeaders_def getTemplateHeaders_def)

lemma headers_within_limit:
  "list_all within_limit getCompanyHeaders"
  "list_all within_limit getProductHeaders"
  "list_all within_limit getCustomerHeaders"
  "list_all within_limit getQuotationHeaders"
  "list_all within_limit getQuotationItemHeaders"
  "list_all within_limit getTemplateHeaders"
  by (simp_all add: getCompanyHeaders_def getProductHeaders_def getCustomerHeaders_def
      getQuotationHeaders_def getQuotationItemHeaders_def getTemplateHeaders_def)

lemma fresh_writable: "writable fresh_workbook"
  by (simp add: writable_def fresh_names fresh_sheets headers_within_limit)

lemma fresh_listed: "listed fresh_workbook = fresh_workbook"
proof -
  have "(\<lambda>name. if name \<in> set (SheetNames fresh_workbook)
                then map_option (map (map read_back)) (Sheets fresh_workbook name)
                else None) = Sheets fresh_workbook"
    by (rule ext) (simp add: fresh_names fresh_sheets headers_read_back)
  then show ?thesis by (simp add: listed_def)
qed

lemma write_listed:
  "SheetNames wb \<noteq> [] \<Longrightarrow> writable wb \<Longrightarrow> XLSX_write wb = Inr (Base64 (listed wb))"
  by (simp add: XLSX_write_def)

lemma write_refused: "\<not> writable wb \<Longrightarrow> XLSX_write wb = Inl WriteError"
  by (simp add: XLSX_write_def)

lemma key_stored_env: "getUserKey (stored_env e wb) = getUserKey e"
  by (simp add: stored_env_def getUserKey_def)

lemma get_stored_env: "getItem (stored_env e wb) (getUserKey e) = Some (Base64 wb)"
  by (simp add: stored_env_def getItem_def)

lemma quota_stored_env: "quota_exceeded (stored_env e wb) = quota_exceeded e"
  by (simp add: stored_env_def)

lemma writes_stored_env: "writes (stored_env e wb) = Suc (writes e)"
  by (simp add: stored_env_def)

lemma persist_ok:
  "\<not> quota_exceeded e \<Longrightarrow> SheetNames wb \<noteq> [] \<Longrightarrow> writable wb
     \<Longrightarrow> persist e wb = (None, stored_env e (listed wb))"
  by (simp add: persist_def saveToLocalStorage_def write_listed setItem_def stored_env_def)

lemma persist_refused: "\<not> writable wb \<Longrightarrow> persist e wb = (Some WriteError, e)"
  by (simp add: persist_def saveToLocalStorage_def write_refused)

lemma init_ok: "\<not> quota_exceeded e \<Longrightarrow> initializeExcelFile e = Inr (stored_env e fresh_workbook)"
  using write_listed [of fresh_workbook]
  by (simp add: initializeExcelFile_def fresh_listed fresh_names fresh_writable setItem_def
      stored_env_def)

lemma read_stored:
  "getItem e (getUserKey e) = Some (Base64 wb) \<Longrightarrow> readFromLocalStorage e = (Some wb, e)"
  by (simp add: readFromLocalStorage.simps)

lemma read_unreadable:
  "getItem e (getUserKey e) = Some Unreadable \<Longrightarrow> readFromLocalStorage e = (None, e)"
  by (simp add: readFromLocalStorage.simps)

lemma read_absent:
  assumes "absent (getItem e (getUserKey e))" and "\<not> quota_exceeded e"
  shows "readFromLocalStorage e = (Some fresh_workbook, stored_env e fresh_workbook)"
proof -
  have "readFromLocalStorage e = readFromLocalStorage (stored_env e fresh_workbook)"
    using assms by (subst readFromLocalStorage.simps) (simp add: init_ok)
  also have "\<dots> = (Some fresh_workbook, stored_env e fresh_workbook)"
    by (rule read_stored) (simp add: key_stored_env get_stored_env)
  finally show ?thesis .
qed

lemma read_blob_lost:
  assumes "getItem e (getUserKey e) = Some (BlobUrl None)" and "\<not> quota_exceeded e"
  shows "readFromLocalStorage e = (Some fresh_workbook, stored_env e fresh_workbook)"
  using assms
  by (subst readFromLocalStorage.simps) (simp add: init_ok key_stored_env get_stored_env)

lemma read_after_persist:
  "readFromLocalStorage (stored_env e wb) = (Some wb, stored_env e wb)"
  by (rule read_stored) (simp add: key_stored_env get_stored_env)

lemma key_env0: "getUserKey env0 = ''quotation_system_data:default''"
  by (simp add: getUserKey_def env0_def)

lemma key_env_corrupt: "getUserKey env_corrupt = ''quotation_system_data:default''"
  by (simp add: getUserKey_def env_corrupt_def env0_def)

text \<open>
  C6, as the code has it. A missing (or empty) backing value is replaced by a fresh
  workbook of the six sheets, each holding its canonical header row; the fresh workbook
  is persisted, by one write, and returned. So is a legacy \<^verbatim>\<open>blob:\<close> URL that can no longer
  be fetched. A backing value that is present but cannot be parsed is not reinitialised:
  the load returns \<^verbatim>\<open>null\<close> and leaves the store as it was.
\<close>

theorem readFromLocalStorage_initialises_only_when_absent:
  "(absent (getItem e (getUserKey e)) \<and> \<not> quota_exceeded e \<longrightarrow>
      readFromLocalStorage e = (Some fresh_workbook, stored_env e fresh_workbook))
   \<and> (getItem e (getUserKey e) = Some (BlobUrl None) \<and> \<not> quota_exceeded e \<longrightarrow>
      readFromLocalStorage e = (Some fresh_workbook, stored_env e fresh_workbook))
   \<and> (getItem e (getUserKey e) = Some Unreadable \<longrightarrow> readFromLocalStorage e = (None, e))
   \<and> SheetNames fresh_workbook =
        [''CompanyInfo'', ''ProductLibrary'', ''CustomerInfo'', ''Quotation'', ''QuotationItem'',
         ''TermsTemplate'']
   \<and> Sheets fresh_workbook =
        [''CompanyInfo'' \<mapsto> [getCompanyHeaders], ''ProductLibrary'' \<mapsto> [getProductHeaders],
         ''CustomerInfo'' \<mapsto> [getCustomerHeaders], ''Quotation'' \<mapsto> [getQuotationHeaders],
         ''QuotationItem'' \<mapsto> [getQuotationItemHeaders],
         ''TermsTemplate'' \<mapsto> [getTemplateHeaders]]"
  using read_absent [of e] read_blob_lost [of e] read_unreadable [of e] fresh_names fresh_sheets
  by blast

theorem readFromLocalStorage_initialises_witness:
  "readFromLocalStorage env0 = (Some fresh_workbook, stored_env env0 fresh_workbook)
   \<and> readFromLocalStorage (env0\<lparr>storage := [getUserKey env0 \<mapsto> BlobUrl None]\<rparr>)
       = (Some fresh_workbook,
          stored_env (env0\<lparr>storage := [getUserKey env0 \<mapsto> BlobUrl None]\<rparr>) fresh_workbook)
   \<and> readFromLocalStorage env_corrupt = (None, env_corrupt)"
proof -
  have a: "absent (getItem env0 (getUserKey env0)) \<and> \<not> quota_exceeded env0"
    by (simp add: env0_def getItem_def)
  have b: "getItem (env0\<lparr>storage := [getUserKey env0 \<mapsto> BlobUrl None]\<rparr>)
             (getUserKey (env0\<lparr>storage := [getUserKey env0 \<mapsto> BlobUrl None]\<rparr>))
           = Some (BlobUrl None)
           \<and> \<not> quota_exceeded (env0\<lparr>storage := [getUserKey env0 \<mapsto> BlobUrl None]\<rparr>)"
    by (simp add: env0_def getItem_def getUserKey_def)
  have c: "getItem env_corrupt (getUserKey env_corrupt) = Some Unreadable"
    by (simp add: key_env_corrupt) (simp add: env_corrupt_def getItem_def)
  show ?thesis
    using a b c
      readFromLocalStorage_initialises_only_when_absent [of env0]
      readFromLocalStorage_initialises_only_when_absent
        [of "env0\<lparr>storage := [getUserKey env0 \<mapsto> BlobUrl None]\<rparr>"]
      readFromLocalStorage_initialises_only_when_absent [of env_corrupt]
    by blast
qed

text \<open>
  C6 as stated fails on an unparseable value: the load of \<open>env_corrupt\<close> returns no
  workbook, and the unparseable text is still what the store holds afterwards.
\<close>

theorem readFromLocalStorage_unparseable_counterexample:
  "fst (readFromLocalStorage env_corrupt) = None
   \<and> getItem (snd (readFromLocalStorage env_corrupt)) (getUserKey env_corrupt) = Some Unreadable
   \<and> writes (snd (readFromLocalStorage env_corrupt)) = writes env_corrupt"
proof -
  have c: "getItem env_corrupt (getUserKey env_corrupt) = Some Unreadable"
    by (simp add: key_env_corrupt) (simp add: env_corrupt_def getItem_def)
  then show ?thesis by (simp add: read_unreadable)
qed

section \<open>Properties of import\<close>

lemma join_names: "m \<in> set xs \<Longrightarrow> sublist m (join sep xs)"
proof (induction sep xs rule: join.induct)
  case (1 sep)
  then show ?case by simp
next
  case (2 sep x)
  then show ?case by simp
next
  case (3 sep x y r)
  show ?case
  proof (cases "m = x")
    case True
    then show ?thesis by (simp add: prefix_imp_sublist)
  next
    case False
    with 3 have "sublist m (join sep (y # r))" by simp
    then show ?thesis by (simp add: sublist_append)
  qed
qed

lemma missing_empty_iff: "missingSheets wb = [] \<longleftrightarrow> set requiredSheets \<subseteq> set (SheetNames wb)"
  by (auto simp: missingSheets_def filter_empty_conv)

lemma required_listed: "set requiredSheets \<subseteq> set (SheetNames wb) \<Longrightarrow> SheetNames wb \<noteq> []"
  by (auto simp: requiredSheets_def)

text \<open>
  C7, as the code has it. With a store that accepts the write, the import of an uploaded
  workbook succeeds exactly when the workbook lists the company, product and customer
  sheets and the library can write it, that is, no listed sheet holds a text cell of
  more than 32767 characters. Then the backing value of the current user is the uploaded
  workbook as a write and a read give it back, written once. A workbook that lists the
  three sheets but cannot be written is rejected with the error of the write, and a
  workbook that lacks one of the three sheets is rejected with a message that is the
  fixed prefix followed by the missing sheets, each of which it names; either way the
  store is left as it was.
\<close>

theorem importExcel_requires_three_sheets:
  assumes "\<not> quota_exceeded e"
  shows "(fst (importExcel e (FileContent (Some wb))) = None
            \<longleftrightarrow> set requiredSheets \<subseteq> set (SheetNames wb) \<and> writable wb)
    \<and> (set requiredSheets \<subseteq> set (SheetNames wb) \<and> writable wb \<longrightarrow>
          importExcel e (FileContent (Some wb)) = (None, stored_env e (listed wb))
          \<and> readFromLocalStorage (snd (importExcel e (FileContent (Some wb))))
              = (Some (listed wb), stored_env e (listed wb)))
    \<and> (set requiredSheets \<subseteq> set (SheetNames wb) \<and> \<not> writable wb \<longrightarrow>
          importExcel e (FileContent (Some wb)) = (Some WriteError, e))
    \<and> (\<not> set requiredSheets \<subseteq> set (SheetNames wb) \<longrightarrow>
          importExcel e (FileContent (Some wb))
            = (Some (Error (''missing required sheets: '' @ join '', '' (missingSheets wb))), e)
          \<and> set (missingSheets wb) = set requiredSheets - set (SheetNames wb)
          \<and> (\<forall>m \<in> set (missingSheets wb). sublist m (join '', '' (missingSheets wb))))"
proof (cases "set requiredSheets \<subseteq> set (SheetNames wb)")
  case True
  then have m: "missingSheets wb = []" by (simp add: missing_empty_iff)
  show ?thesis
  proof (cases "writable wb")
    case w: True
    have "importExcel e (FileContent (Some wb)) = (None, stored_env e (listed wb))"
      using assms True w by (simp add: importExcel_def m persist_ok required_listed)
    with True w show ?thesis by (simp add: read_after_persist)
  next
    case w: False
    have "importExcel e (FileContent (Some wb)) = (Some WriteError, e)"
      using w by (simp add: importExcel_def m persist_refused)
    with True w show ?thesis by simp
  qed
next
  case False
  then have m: "missingSheets wb \<noteq> []" by (simp add: missing_empty_iff)
  have "importExcel e (FileContent (Some wb))
          = (Some (Error (''missing required sheets: '' @ join '', '' (missingSheets wb))), e)"
    using m by (simp add: importExcel_def)
  moreover have "set (missingSheets wb) = set requiredSheets - set (SheetNames wb)"
    by (auto simp: missingSheets_def)
  ultimately show ?thesis using False by (simp add: join_names)
qed

theorem importExcel_requires_three_sheets_witness:
  "importExcel env0 (FileContent (Some fresh_workbook)) = (None, stored_env env0 fresh_workbook)
   \<and> importExcel env0 (FileContent (Some wb_no_customer))
       = (Some (Error ''missing required sheets: CustomerInfo''), env0)
   \<and> sublist ''CustomerInfo'' (join '', '' (missingSheets wb_no_customer))"
proof -
  have q: "\<not> quota_exceeded env0" by (simp add: env0_def)
  have t: "set requiredSheets \<subseteq> set (SheetNames fresh_workbook)"
    by (simp add: requiredSheets_def fresh_names)
  have f: "\<not> set requiredSheets \<subseteq> set (SheetNames wb_no_customer)"
    by (simp add: requiredSheets_def wb_no_customer_def)
  have m: "missingSheets wb_no_customer = [''CustomerInfo'']"
    by (simp add: missingSheets_def requiredSheets_def wb_no_customer_def)
  show ?thesis
    using importExcel_requires_three_sheets [OF q, of fresh_workbook]
      importExcel_requires_three_sheets [OF q, of wb_no_customer] t f m
    by (simp add: fresh_listed fresh_writable)
qed

text \<open>
  C7 as stated fails on a workbook that the library cannot write: \<open>wb_long_text\<close> lists
  the three sheets (all six), and its import into a store that accepts writes is
  rejected, the store being left as it was, because a cell of its company sheet holds a
  text of 32768 characters.
\<close>

theorem importExcel_long_text_counterexample:
  "set requiredSheets \<subseteq> set (SheetNames wb_long_text)
   \<and> importExcel env0 (FileContent (Some wb_long_text)) = (Some WriteError, env0)"
proof -
  have n: "SheetNames wb_long_text = SheetNames fresh_workbook"
    by (simp add: wb_long_text_def)
  have "\<not> writable wb_long_text"
    by (simp add: writable_def n fresh_names) (simp add: wb_long_text_def)
  moreover have "missingSheets wb_long_text = []"
    by (simp add: missingSheets_def requiredSheets_def n fresh_names)
  ultimately show ?thesis
    by (simp add: importExcel_def persist_refused requiredSheets_def n fresh_names env0_def)
qed

section \<open>Properties of the quotation list\<close>

lemma rows_of_quotation_items: "q \<in> set (rows_of wb name quotation_of_row) \<Longrightarrow> q_items q = []"
  by (auto simp: rows_of_def quotation_of_row_def split: option.splits if_splits)

text \<open>
  C9. Whatever the store holds, every quotation that \<^verbatim>\<open>getQuotations\<close> returns has an
  empty list of items. The quotation sheet has no column for them: its header row has
  the seventeen columns of the scalar fields, and the row written for a quotation does
  not depend on its items. Items come from \<^verbatim>\<open>getQuotationItemsByQuotationId\<close> only.
\<close>

theorem getQuotations_items_empty:
  "(\<forall>q \<in> set (fst (getQuotations e)). q_items q = [])
   \<and> quotation_row (quotation\<lparr>q_items := its\<rparr>) = quotation_row quotation
   \<and> length getQuotationHeaders = 17 \<and> length (quotation_row quotation) = 17"
proof -
  have "\<forall>q \<in> set (fst (getQuotations e)). q_items q = []"
    by (auto simp: getQuotations_def rows_of_quotation_items split: prod.splits option.splits)
  then show ?thesis by (simp add: quotation_row_def getQuotationHeaders_def)
qed

theorem getQuotations_items_empty_witness:
  "map q_id (fst (getQuotations env_q1)) = [''q1'']
   \<and> map q_items (fst (getQuotations env_q1)) = [[]]
   \<and> fst (getQuotationItemsByQuotationId env_q1 ''q1'') = [item1, item2]"
proof -
  have ids: "map q_id (fst (getQuotations env_q1)) = [''q1'']"
    unfolding env_q1_def by code_simp
  then obtain q where q: "fst (getQuotations env_q1) = [q]"
    by (cases "fst (getQuotations env_q1)") auto
  have "q_items q = []"
    using getQuotations_items_empty [of env_q1] q by simp
  moreover have "fst (getQuotationItemsByQuotationId env_q1 ''q1'') = [item1, item2]"
    unfolding env_q1_def by code_simp
  ultimately show ?thesis using ids q by simp
qed

section \<open>Properties of saving a quotation\<close>

lemma item_header_index:
  "indexOf getQuotationItemHeaders (Str ''ID'') = 0"
  "indexOf getQuotationItemHeaders (Str ''QuotationID'') = 1"
  "indexOf getQuotationItemHeaders (Str ''ProductID'') = 2"
  "indexOf getQuotationItemHeaders (Str ''ProductName'') = 3"
  "indexOf getQuotationItemHeaders (Str ''Description'') = 4"
  "indexOf getQuotationItemHeaders (Str ''Quantity'') = 5"
  "indexOf getQuotationItemHeaders (Str ''Unit'') = 6"
  "indexOf getQuotationItemHeaders (Str ''UnitPrice'') = 7"
  "indexOf getQuotationItemHeaders (Str ''DiscountRate'') = 8"
  "indexOf getQuotationItemHeaders (Str ''DiscountAmount'') = 9"
  "indexOf getQuotationItemHeaders (Str ''TotalPrice'') = 10"
  by (simp_all add: getQuotationItemHeaders_def)

lemma text_or_Str: "text_or (Str s) [] = s"
  by (simp add: text_or_def js_or_def)

lemma number_or_zero_Num: "number_defined n \<Longrightarrow> number_or_zero (Num n) = n"
  by (cases n) (auto simp: number_or_zero_def js_or_def number_defined_def)

lemma item_of_item_row:
  "item_defined item \<Longrightarrow> item_of_row getQuotationItemHeaders (item_row quotationId item) = item"
  by (simp add: item_of_row_def item_row_def field_def item_header_index cell_at_def
      text_or_Str number_or_zero_Num item_defined_def)

lemma quotation_id_of_item_row:
  "js_String (field getQuotationItemHeaders (item_row quotationId item) ''QuotationID'')
     = quotationId"
  by (simp add: item_row_def field_def item_header_index cell_at_def)

lemma items_after_replace:
  assumes "\<forall>item \<in> set (q_items quotation). item_defined item"
  shows "items_of_sheet (replace_items (getQuotationItemHeaders # rows) quotation) (q_id quotation)
           = q_items quotation"
proof -
  let ?h = getQuotationItemHeaders
  let ?mine = "\<lambda>row. js_String (field ?h row ''QuotationID'') = q_id quotation"
  let ?new = "map (item_row (q_id quotation)) (q_items quotation)"
  have kept: "filter ?mine (filter (\<lambda>row. \<not> ?mine row) rows) = []"
    by (simp add: filter_empty_conv)
  have new: "filter ?mine ?new = ?new"
    by (simp add: filter_id_conv quotation_id_of_item_row)
  have dec: "map (item_of_row ?h \<circ> item_row (q_id quotation)) (q_items quotation)
               = q_items quotation"
    using assms by (simp add: map_idI item_of_item_row)
  show ?thesis
    by (simp add: items_of_sheet_def replace_items_def kept new dec)
qed

text \<open>
  On a workbook that lists its item sheet, as the one that \<^verbatim>\<open>initializeExcelFile\<close> builds
  does, a save replaces the items of the quotation: \<open>env_items\<close> holds \<open>item1\<close> for the
  quotation \<open>q1\<close> and \<open>item2\<close> for another one, and after saving \<open>q1\<close> with the single
  item \<open>item2\<close> the items loaded for \<open>q1\<close> are that item.
\<close>

lemma saveQuotation_replaces_items_when_listed:
  "fst (getQuotationItemsByQuotationId env_items ''q1'') = [item1]
   \<and> fst (saveQuotation env_items (quotation1\<lparr>q_items := [item2]\<rparr>)) = None
   \<and> fst (getQuotationItemsByQuotationId
            (snd (saveQuotation env_items (quotation1\<lparr>q_items := [item2]\<rparr>))) ''q1'')
       = [item2]"
  by code_simp

text \<open>
  C3 fails on a workbook that does not list the quotation sheets. \<open>env_imported\<close> is the
  store after the import of a workbook of the three sheets that an import asks for, which
  the import accepts. On it, \<^verbatim>\<open>saveQuotation\<close> of \<open>quotation1\<close>, whose items are \<open>item1\<close>
  and \<open>item2\<close>, succeeds, and the items loaded for its id afterwards are none;
  the quotation is not among those loaded either. \<^verbatim>\<open>saveQuotation\<close> builds the two sheets
  it does not find and assigns them into \<^verbatim>\<open>Sheets\<close>, but does not enter their names into
  \<^verbatim>\<open>SheetNames\<close> (as \<^verbatim>\<open>book_append_sheet\<close> does in \<^verbatim>\<open>initializeExcelFile\<close>), and the
  writer serialises the listed sheets only.
\<close>

theorem saveQuotation_loses_items_of_imported_workbook:
  "fst (importExcel env0 (FileContent (Some wb_three_sheets))) = None
   \<and> fst (saveQuotation env_imported quotation1) = None
   \<and> q_id quotation1 = ''q1''
   \<and> q_items quotation1 = [item1, item2]
   \<and> fst (getQuotationItemsByQuotationId (snd (saveQuotation env_imported quotation1)) ''q1'')
       = []
   \<and> fst (getQuotations (snd (saveQuotation env_imported quotation1))) = []"
proof -
  have a: "fst (importExcel env0 (FileContent (Some wb_three_sheets))) = None"
    by code_simp
  have b: "fst (saveQuotation env_imported quotation1) = None"
    by code_simp
  have c: "fst (getQuotationItemsByQuotationId (snd (saveQuotation env_imported quotation1))
             ''q1'') = []"
    by code_simp
  have d: "fst (getQuotations (snd (saveQuotation env_imported quotation1))) = []"
    by code_simp
  show ?thesis using a b c d by (simp add: quotation1_def)
qed

section \<open>Properties of the company store\<close>

lemma strict_eq_Str_left [simp]: "strict_eq (Str s) b = (b = Str s)"
proof (cases b)
  case (Num n)
  then show ?thesis by (cases n) auto
qed auto

lemma strict_eq_Str_right [simp]: "strict_eq a (Str s) = (a = Str s)"
proof (cases a)
  case (Num n)
  then show ?thesis by (cases n) auto
qed auto

lemma is_id_Str: "is_id v \<Longrightarrow> \<exists>s. v = Str s \<and> s \<noteq> []"
  by (cases v) auto

lemma js_or_id: "is_id v \<Longrightarrow> js_or v d = v"
  by (auto simp: js_or_def dest: is_id_Str)

lemma js_or_idem: "js_or (js_or v (Str [])) (Str []) = js_or v (Str [])"
  by (simp add: js_or_def)

lemma find_from_at:
  assumes "v \<notin> set (row_ids pre)" and "cell_at r 0 = v" and "is_id v"
  shows "find_from i (pre @ r # post) v = int (i + length pre)"
  using assms
proof (induction pre arbitrary: i)
  case Nil
  then show ?case by (auto dest: is_id_Str)
next
  case (Cons p pre)
  from Cons.prems obtain s where s: "v = Str s" by (auto dest: is_id_Str)
  from Cons.prems have "cell_at p 0 \<noteq> v" by (auto simp: row_ids_def)
  with Cons s show ?case by (simp add: row_ids_def)
qed

lemma upsert_at:
  assumes "v \<notin> set (row_ids pre)" and "cell_at r 0 = v" and "is_id v"
  shows "upsert (h # pre @ r # post) v x = h # pre @ x # post"
proof -
  have "existingIndex (h # pre @ r # post) v = int (Suc (length pre))"
    using find_from_at [OF assms, of 1 post] by (simp add: existingIndex_def)
  moreover have "nat (int (Suc (length pre))) = Suc (length pre)" by simp
  ultimately show ?thesis by (simp add: upsert_def del: of_nat_Suc)
qed

lemma company_header_index:
  "indexOf getCompanyHeaders (Str ''ID'') = 0"
  "indexOf getCompanyHeaders (Str ''CompanyName'') = 1"
  "indexOf getCompanyHeaders (Str ''EnglishName'') = 2"
  "indexOf getCompanyHeaders (Str ''Address'') = 3"
  "indexOf getCompanyHeaders (Str ''EnglishAddress'') = 4"
  "indexOf getCompanyHeaders (Str ''Phone'') = 5"
  "indexOf getCompanyHeaders (Str ''Email'') = 6"
  "indexOf getCompanyHeaders (Str ''Website'') = 7"
  "indexOf getCompanyHeaders (Str ''TaxNumber'') = 8"
  "indexOf getCompanyHeaders (Str ''BankName'') = 9"
  "indexOf getCompanyHeaders (Str ''BankAccount'') = 10"
  "indexOf getCompanyHeaders (Str ''SWIFTCode'') = 11"
  "indexOf getCompanyHeaders (Str ''IntermediaryBank'') = 12"
  "indexOf getCompanyHeaders (Str ''Logo'') = 13"
  "indexOf getCompanyHeaders (Str ''IsDefault'') = 14"
  by (simp_all add: getCompanyHeaders_def)

lemma company_of_company_row:
  "company_of_row getCompanyHeaders (company_row c) =
     c\<lparr>c_id := js_or (c_id c) (Str []), c_name := js_or (c_name c) (Str []),
       c_nameEn := js_or (c_nameEn c) (Str []), c_address := js_or (c_address c) (Str []),
       c_addressEn := js_or (c_addressEn c) (Str []), c_phone := js_or (c_phone c) (Str []),
       c_email := js_or (c_email c) (Str []), c_website := js_or (c_website c) (Str []),
       c_taxNumber := js_or (c_taxNumber c) (Str []),
       c_bankName := js_or (c_bankName c) (Str []),
       c_bankAccount := js_or (c_bankAccount c) (Str []),
       c_swiftCode := js_or (c_swiftCode c) (Str []),
       c_intermediaryBank := js_or (c_intermediaryBank c) (Str []),
       c_logo := js_or (c_logo c) (Str [])\<rparr>"
  by (simp add: company_of_row_def company_row_def field_def company_header_index cell_at_def
      js_or_idem)

lemma decode_resaved:
  "company_of_row getCompanyHeaders
     (company_row (make_default cid (company_of_row headers row)))
   = make_default cid (company_of_row headers row)"
  by (simp add: company_of_company_row) (simp add: make_default_def company_of_row_def js_or_idem)

lemma id_of_decoded:
  "is_id (cell_at row 0) \<Longrightarrow> c_id (company_of_row getCompanyHeaders row) = cell_at row 0"
  by (simp add: company_of_row_def field_def company_header_index js_or_id)

lemma id_of_resaved:
  "is_id (cell_at row 0) \<Longrightarrow>
     cell_at (company_row (make_default cid (company_of_row getCompanyHeaders row))) 0
       = cell_at row 0"
  by (simp add: company_row_def make_default_def cell_at_def id_of_decoded [unfolded cell_at_def])

lemma plain_read_back: "plain c \<Longrightarrow> read_back c = c"
  by (cases c) (simp_all add: unescapexml_plain)

lemma plain_within_limit: "plain c \<Longrightarrow> within_limit c"
  by (cases c) simp_all

lemma plain_sheet_read_back: "list_all (list_all plain) data \<Longrightarrow> map (map read_back) data = data"
  by (simp add: list_all_iff map_idI plain_read_back)

lemma plain_sheet_within_limit:
  "list_all (list_all plain) data \<Longrightarrow> list_all (list_all within_limit) data"
  by (auto simp: list_all_iff plain_within_limit)

lemma read_back_within_limit: "within_limit c \<Longrightarrow> within_limit (read_back c)"
proof (cases c)
  case (Str s)
  assume "within_limit c"
  with Str unescapexml_length [of s] show ?thesis by simp
qed simp_all

lemma names_listed: "SheetNames (listed wb) = SheetNames wb"
  by (simp add: listed_def)

lemma sheet_listed:
  "name \<in> set (SheetNames wb) \<Longrightarrow> Sheets (listed wb) name
     = map_option (map (map read_back)) (Sheets wb name)"
  by (simp add: listed_def)

lemma writable_listed: "writable wb \<Longrightarrow> writable (listed wb)"
  by (auto simp: writable_def listed_def list_all_iff read_back_within_limit
      split: option.splits)

lemma writable_update:
  assumes "writable wb" and "list_all (list_all within_limit) data"
  shows "writable (wb\<lparr>Sheets := (Sheets wb)(name \<mapsto> data)\<rparr>)"
  using assms by (auto simp: writable_def list_all_iff split: option.splits)

lemma writable_sheet:
  assumes "writable wb" and "name \<in> set (SheetNames wb)" and "Sheets wb name = Some data"
  shows "list_all (list_all within_limit) data"
  using assms by (auto simp: writable_def list_all_iff split: option.splits)

lemma plain_upsert:
  assumes "list_all (list_all plain) data" and "list_all plain row"
  shows "list_all (list_all plain) (upsert data v row)"
proof -
  have "set (data[i := row]) \<subseteq> insert row (set data)" for i
    by (rule set_update_subset_insert)
  with assms show ?thesis
    by (auto simp: upsert_def Let_def list_all_iff)
qed

lemma company_headers_plain: "list_all plain getCompanyHeaders"
  by (simp add: getCompanyHeaders_def)

lemma plain_cell_at: "list_all plain row \<Longrightarrow> plain (cell_at row i)"
  by (simp add: cell_at_def list_all_iff)

lemma plain_js_or: "plain a \<Longrightarrow> plain b \<Longrightarrow> plain (js_or a b)"
  by (simp add: js_or_def)

lemma plain_resaved:
  assumes "list_all plain row"
  shows "list_all plain (company_row (make_default cid (company_of_row headers row)))"
proof -
  have f: "plain (js_or (field headers row h) (Str []))" for h
    using assms by (simp add: field_def plain_js_or plain_cell_at)
  show ?thesis
    by (simp add: company_row_def make_default_def company_of_row_def f plain_js_or)
qed

lemma saveCompany_stored:
  assumes "getItem e (getUserKey e) = Some (Base64 wb)" and "\<not> quota_exceeded e"
    and "''CompanyInfo'' \<in> set (SheetNames wb)" and "Sheets wb ''CompanyInfo'' = Some data"
    and "writable wb" and "list_all (list_all plain) data" and "list_all plain (company_row c)"
  shows "saveCompany e c =
           (None, stored_env e (listed (wb\<lparr>Sheets := (Sheets wb)(''CompanyInfo'' \<mapsto>
                     upsert data (c_id c) (company_row c))\<rparr>)))"
proof -
  let ?wb = "wb\<lparr>Sheets := (Sheets wb)(''CompanyInfo'' \<mapsto> upsert data (c_id c) (company_row c))\<rparr>"
  have n: "SheetNames ?wb \<noteq> []" using assms(3) by auto
  have w: "writable ?wb"
    using assms(5) plain_sheet_within_limit [OF plain_upsert [OF assms(6,7)]]
    by (rule writable_update)
  have "persist e ?wb = (None, stored_env e (listed ?wb))"
    using assms(2) n w by (rule persist_ok)
  then show ?thesis
    using assms(1,4) by (simp add: saveCompany_def read_stored sheet_or_def Let_def)
qed

lemma save_each_stored:
  assumes "getItem e (getUserKey e) = Some (Base64 wb)" and "\<not> quota_exceeded e"
    and "''CompanyInfo'' \<in> set (SheetNames wb)" and "Sheets wb ''CompanyInfo'' = Some data"
    and "writable wb" and "list_all (list_all plain) data"
    and "\<forall>c \<in> set cs. list_all plain (company_row c)"
  shows "\<exists>e' wb'. save_each e cs = (None, e')
           \<and> getItem e' (getUserKey e') = Some (Base64 wb') \<and> \<not> quota_exceeded e'
           \<and> ''CompanyInfo'' \<in> set (SheetNames wb')
           \<and> Sheets wb' ''CompanyInfo''
               = Some (foldl (\<lambda>d c. upsert d (c_id c) (company_row c)) data cs)
           \<and> writes e' = writes e + length cs"
  using assms
proof (induction cs arbitrary: e wb data)
  case Nil
  then show ?case by simp
next
  case (Cons c cs)
  let ?data = "upsert data (c_id c) (company_row c)"
  let ?upd = "wb\<lparr>Sheets := (Sheets wb)(''CompanyInfo'' \<mapsto> ?data)\<rparr>"
  let ?wb = "listed ?upd"
  let ?e = "stored_env e ?wb"
  have row: "list_all plain (company_row c)" using Cons.prems(7) by simp
  have pl: "list_all (list_all plain) ?data"
    using Cons.prems(6) row by (rule plain_upsert)
  have s: "saveCompany e c = (None, ?e)"
    using Cons.prems(1-6) row by (rule saveCompany_stored)
  have "\<exists>e' wb'. save_each ?e cs = (None, e')
           \<and> getItem e' (getUserKey e') = Some (Base64 wb') \<and> \<not> quota_exceeded e'
           \<and> ''CompanyInfo'' \<in> set (SheetNames wb')
           \<and> Sheets wb' ''CompanyInfo''
               = Some (foldl (\<lambda>d c. upsert d (c_id c) (company_row c)) ?data cs)
           \<and> writes e' = writes ?e + length cs"
  proof (rule Cons.IH)
    show "getItem ?e (getUserKey ?e) = Some (Base64 ?wb)"
      by (simp add: key_stored_env get_stored_env)
    show "\<not> quota_exceeded ?e" using Cons.prems(2) by (simp add: quota_stored_env)
    show "''CompanyInfo'' \<in> set (SheetNames ?wb)"
      using Cons.prems(3) by (simp add: names_listed)
    have "Sheets ?wb ''CompanyInfo'' = Some (map (map read_back) ?data)"
      using Cons.prems(3) by (simp add: sheet_listed)
    then show "Sheets ?wb ''CompanyInfo'' = Some ?data"
      by (simp only: plain_sheet_read_back [OF pl])
    have "writable ?upd"
      using Cons.prems(5) plain_sheet_within_limit [OF pl] by (rule writable_update)
    then show "writable ?wb" by (rule writable_listed)
    show "list_all (list_all plain) ?data" by (rule pl)
    show "\<forall>c \<in> set cs. list_all plain (company_row c)" using Cons.prems(7) by simp
  qed
  with s show ?case by (simp add: writes_stored_env)
qed

lemma resave_rows:
  assumes "keyed (pre @ rest)"
  shows "foldl (\<lambda>d c. upsert d (c_id c) (company_row c))
           (getCompanyHeaders
            # map (\<lambda>r. company_row (make_default cid (company_of_row getCompanyHeaders r))) pre
            @ rest)
           (map (make_default cid) (map (company_of_row getCompanyHeaders) rest))
         = getCompanyHeaders
           # map (\<lambda>r. company_row (make_default cid (company_of_row getCompanyHeaders r)))
               (pre @ rest)"
  using assms
proof (induction rest arbitrary: pre)
  case Nil
  then show ?case by simp
next
  case (Cons r rest)
  let ?g = "\<lambda>r. company_row (make_default cid (company_of_row getCompanyHeaders r))"
  let ?v = "cell_at r 0"
  from Cons.prems have idr: "is_id ?v" and ids: "list_all is_id (row_ids pre)"
    and fresh: "?v \<notin> set (row_ids pre)"
    by (auto simp: keyed_def row_ids_def)
  have same: "row_ids (map ?g pre) = row_ids pre"
    using ids by (induction pre) (auto simp: row_ids_def id_of_resaved)
  have cid: "c_id (make_default cid (company_of_row getCompanyHeaders r)) = ?v"
    using idr by (simp add: make_default_def id_of_decoded)
  have step: "upsert (getCompanyHeaders # map ?g pre @ r # rest) ?v (?g r)
                = getCompanyHeaders # map ?g pre @ ?g r # rest"
    by (rule upsert_at) (use fresh same idr in simp_all)
  have "keyed ((pre @ [r]) @ rest)" using Cons.prems by simp
  from Cons.IH [OF this] show ?case by (simp add: cid step)
qed

lemma getCompanies_stored:
  assumes "getItem e (getUserKey e) = Some (Base64 wb)"
    and "Sheets wb ''CompanyInfo'' = Some (headers # rows)"
  shows "getCompanies e = (map (company_of_row headers) rows, e)"
  using assms by (cases rows) (simp_all add: getCompanies_def read_stored rows_of_def)

lemma one_match:
  "distinct (map f xs) \<Longrightarrow> a \<in> set (map f xs) \<Longrightarrow> length (filter (\<lambda>x. f x = a) xs) = 1"
proof (induction xs)
  case Nil
  then show ?case by simp
next
  case (Cons x xs)
  show ?case
  proof (cases "f x = a")
    case True
    from Cons.prems have "f x \<notin> f ` set xs" by simp
    with True have "\<forall>y \<in> set xs. f y \<noteq> a" by blast
    then have "filter (\<lambda>x. f x = a) xs = []"
      by (simp add: filter_empty_conv)
    with True show ?thesis by simp
  next
    case False
    with Cons show ?thesis by simp
  qed
qed

lemma ids_of_decoded:
  "list_all is_id (row_ids rows) \<Longrightarrow>
     map c_id (map (company_of_row getCompanyHeaders) rows) = row_ids rows"
  by (induction rows) (auto simp: row_ids_def id_of_decoded)

lemma resave_loaded:
  assumes "save_each e cs = (None, e')" and "getCompanies e' = (cs', e')"
  shows "\<exists>st'. resave (st, e) cs = (None, st', e') \<and> companies st' = cs'"
proof -
  define st1 where "st1 = st\<lparr>loading := True, error := None\<rparr>"
  obtain st2 e2 where l: "loadCompanies (st1, e') = (st2, e2)"
    by (cases "loadCompanies (st1, e')")
  have "e2 = e'" and "companies st2 = cs'"
    using l assms(2) by (auto simp: loadCompanies_def Let_def split: if_splits)
  with l have "resave (st, e) cs = (None, st2\<lparr>loading := False\<rparr>, e')"
    using assms(1) by (simp add: resave_def st1_def)
  moreover have "companies (st2\<lparr>loading := False\<rparr>) = cs'"
    using \<open>companies st2 = cs'\<close> by simp
  ultimately show ?thesis by blast
qed

lemma resaved_sheet:
  assumes "getItem e (getUserKey e) = Some (Base64 wb)" and "\<not> quota_exceeded e"
    and "''CompanyInfo'' \<in> set (SheetNames wb)"
    and "Sheets wb ''CompanyInfo'' = Some (getCompanyHeaders # rows)"
    and "keyed rows" and "writable wb" and "list_all (list_all plain) rows"
  shows "\<exists>e'. save_each e (map (make_default cid) (map (company_of_row getCompanyHeaders) rows))
               = (None, e')
           \<and> getCompanies e'
               = (map (make_default cid) (map (company_of_row getCompanyHeaders) rows), e')
           \<and> writes e' = writes e + length rows"
proof -
  let ?h = getCompanyHeaders
  let ?g = "\<lambda>r. company_row (make_default cid (company_of_row ?h r))"
  let ?new = "map (make_default cid) (map (company_of_row ?h) rows)"
  have pd: "list_all (list_all plain) (?h # rows)"
    using assms(7) by (simp add: company_headers_plain)
  have pn: "\<forall>c \<in> set ?new. list_all plain (company_row c)"
  proof -
    have "list_all plain (company_row (make_default cid (company_of_row ?h r)))"
      if "r \<in> set rows" for r
    proof (rule plain_resaved)
      show "list_all plain r" using assms(7) that by (simp add: list_all_iff)
    qed
    then show ?thesis by simp
  qed
  obtain e' wb' where e': "save_each e ?new = (None, e')"
    and g: "getItem e' (getUserKey e') = Some (Base64 wb')"
    and sh: "Sheets wb' ''CompanyInfo''
               = Some (foldl (\<lambda>d c. upsert d (c_id c) (company_row c)) (?h # rows) ?new)"
    and w: "writes e' = writes e + length ?new"
    using save_each_stored [OF assms(1-4) assms(6) pd pn] by blast
  have "keyed ([] @ rows)" using assms(5) by simp
  from resave_rows [OF this, of cid]
  have sh': "Sheets wb' ''CompanyInfo'' = Some (?h # map ?g rows)"
    using sh by simp
  have "map (company_of_row ?h) (map ?g rows) = ?new"
    by (simp add: decode_resaved)
  with getCompanies_stored [OF g sh'] have "getCompanies e' = (?new, e')" by simp
  with e' w show ?thesis by auto
qed

lemma make_default_flag:
  "make_default cid c = c\<lparr>c_isDefault := (c_id c = Str cid)\<rparr>"
  by (simp add: make_default_def)

lemma one_default:
  assumes "distinct (map c_id cs)" and "Str cid \<in> set (map c_id cs)"
  shows "length (filter c_isDefault (map (make_default cid) cs)) = 1"
proof -
  have "filter c_isDefault (map (make_default cid) cs)
          = map (make_default cid) (filter (\<lambda>c. c_id c = Str cid) cs)"
    by (simp add: filter_map comp_def make_default_def)
  then show ?thesis using one_match [OF assms] by simp
qed

text \<open>
  C2, as the code has it, for a company sheet as the service itself writes it. The
  hypotheses are these, each of them used.

  \<^item> The store holds a readable workbook and accepts writes.
  \<^item> The company sheet is listed, and its first row is the canonical header row, so
    that the identifier is the first column. (\<^verbatim>\<open>getCompanies\<close> finds a column by the name
    in the header row, \<^verbatim>\<open>saveCompany\<close> looks for the identifier in the first column and
    writes the columns in the canonical order; an imported sheet with another column
    order is outside this statement.)
  \<^item> Every row starts with an identifier, a non-empty string, and no identifier occurs
    twice.
  \<^item> The library can write the workbook (no text cell of a listed sheet has more than
    32767 characters), and the text cells of the company rows hold no escape
    \<^verbatim>\<open>_xHHHH_\<close>, which a write and a read would decode.
  \<^item> The store's list of companies is the one loaded from that sheet.

  Then \<^verbatim>\<open>setDefaultCompany\<close> succeeds; the companies listed afterwards, in the store and
  in the sheet, are the former ones with \<^verbatim>\<open>isDefault\<close> set to whether the id is the
  chosen one, however many were flagged before; exactly one is flagged when the chosen
  id is the id of a company. The rewrite is not one batch: the workbook is persisted
  once per company row.
\<close>

theorem setDefaultCompany_flags_one_persists_each:
  assumes "getItem e (getUserKey e) = Some (Base64 wb)" and "\<not> quota_exceeded e"
    and "''CompanyInfo'' \<in> set (SheetNames wb)"
    and "Sheets wb ''CompanyInfo'' = Some (getCompanyHeaders # rows)"
    and "keyed rows"
    and "writable wb" and "list_all (list_all plain) rows"
    and "companies st = fst (getCompanies e)"
  shows "\<exists>st' e'. setDefaultCompany (st, e) companyId = (None, st', e')
    \<and> companies st' = map (\<lambda>c. c\<lparr>c_isDefault := (c_id c = Str companyId)\<rparr>) (companies st)
    \<and> fst (getCompanies e') = companies st'
    \<and> (\<forall>c \<in> set (companies st'). c_isDefault c = (c_id c = Str companyId))
    \<and> (Str companyId \<in> set (map c_id (companies st)) \<longrightarrow>
         length (filter c_isDefault (companies st')) = 1)
    \<and> writes e' = writes e + length rows"
proof -
  let ?new = "map (make_default companyId) (companies st)"
  have cs: "companies st = map (company_of_row getCompanyHeaders) rows"
    using assms(1,4,8) by (simp add: getCompanies_stored)
  obtain e' where s: "save_each e ?new = (None, e')" and a: "getCompanies e' = (?new, e')"
    and w: "writes e' = writes e + length rows"
    using resaved_sheet [OF assms(1-7), of companyId] unfolding cs by blast
  obtain st' where r: "resave (st, e) ?new = (None, st', e')" and c: "companies st' = ?new"
    using resave_loaded [OF s a] by blast
  have ids: "map c_id (companies st) = row_ids rows"
    unfolding cs using assms(5) by (simp only: keyed_def ids_of_decoded)
  have d: "distinct (map c_id (companies st))"
    using assms(5) by (simp only: ids keyed_def)
  have 1: "setDefaultCompany (st, e) companyId = (None, st', e')"
    using r by (simp add: setDefaultCompany_def)
  have 2: "companies st' = map (\<lambda>c. c\<lparr>c_isDefault := (c_id c = Str companyId)\<rparr>) (companies st)"
    unfolding c by (rule map_cong [OF refl]) (rule make_default_flag)
  have 3: "fst (getCompanies e') = companies st'"
    by (simp only: a c fst_conv)
  have 4: "\<forall>c \<in> set (companies st'). c_isDefault c = (c_id c = Str companyId)"
    unfolding 2 by simp
  have 5: "Str companyId \<in> set (map c_id (companies st)) \<longrightarrow>
             length (filter c_isDefault (companies st')) = 1"
    unfolding c using one_default [OF d] by blast
  from 1 2 3 4 5 w show ?thesis by blast
qed

theorem setDefaultCompany_flags_one_witness:
  "fst (setDefaultCompany (state_companies, env_companies) ''b'') = None
   \<and> map (\<lambda>c. (c_id c, c_isDefault c))
         (companies (fst (snd (setDefaultCompany (state_companies, env_companies) ''b''))))
       = [(Str ''a'', False), (Str ''b'', True)]
   \<and> map (\<lambda>c. (c_id c, c_isDefault c)) (companies state_companies)
       = [(Str ''a'', True), (Str ''b'', True)]"
proof -
  have a: "getItem env_companies (getUserKey env_companies) = Some (Base64 wb_companies)"
    by (simp add: env_companies_def env0_def getUserKey_def getItem_def)
  have b: "\<not> quota_exceeded env_companies" by (simp add: env_companies_def env0_def)
  have c: "''CompanyInfo'' \<in> set (SheetNames wb_companies)"
    by (simp add: wb_companies_def fresh_names)
  have d: "Sheets wb_companies ''CompanyInfo''
             = Some (getCompanyHeaders # [company_row (company_named ''a'' True),
                                         company_row (company_named ''b'' True)])"
    by (simp add: wb_companies_def)
  have k: "keyed [company_row (company_named ''a'' True), company_row (company_named ''b'' True)]"
    by (simp add: keyed_def row_ids_def company_row_def company_named_def cell_at_def)
  have w: "writable wb_companies"
    by code_simp
  have p: "list_all (list_all plain)
             [company_row (company_named ''a'' True), company_row (company_named ''b'' True)]"
    by code_simp
  have s: "companies state_companies = fst (getCompanies env_companies)"
    by (simp add: state_companies_def loadCompanies_def Let_def split: prod.splits)
  have before: "map (\<lambda>c. (c_id c, c_isDefault c)) (companies state_companies)
                  = [(Str ''a'', True), (Str ''b'', True)]"
    by code_simp
  from setDefaultCompany_flags_one_persists_each [OF a b c d k w p s, of "''b''"]
  obtain st' e' where r: "setDefaultCompany (state_companies, env_companies) ''b'' = (None, st', e')"
    and cs: "companies st'
               = map (\<lambda>c. c\<lparr>c_isDefault := (c_id c = Str ''b'')\<rparr>) (companies state_companies)"
    by blast
  have "map (\<lambda>c. (c_id c, c_isDefault c)) (companies st')
          = map (\<lambda>(i, d). (i, i = Str ''b''))
              (map (\<lambda>c. (c_id c, c_isDefault c)) (companies state_companies))"
    by (simp add: cs comp_def)
  with r before show ?thesis by simp
qed

text \<open>
  C2 as stated fails in its last part: for the two companies of \<open>env_companies\<close> the call
  stores the workbook twice, once per row, not once for the whole collection.
\<close>

theorem setDefaultCompany_batch_counterexample:
  "length (companies state_companies) = 2
   \<and> writes (snd (snd (setDefaultCompany (state_companies, env_companies) ''b'')))
       = writes env_companies + 2"
  by code_simp

text \<open>
  C1, evaluated where it fails: with companies \<open>a\<close> and \<open>b\<close> stored and loaded,
  \<^verbatim>\<open>deleteCompany\<close> of \<open>a\<close> reports success, saves \<open>b\<close> once, and the list loaded
  afterwards still holds \<open>a\<close>: no row is ever removed from the sheet.
\<close>

theorem deleteCompany_keeps_the_row:
  "fst (deleteCompany (state_companies, env_companies) ''a'') = None
   \<and> map c_id (companies (fst (snd (deleteCompany (state_companies, env_companies) ''a''))))
       = [Str ''a'', Str ''b'']
   \<and> map c_id (fst (getCompanies (snd (snd (deleteCompany (state_companies, env_companies) ''a'')))))
       = [Str ''a'', Str ''b'']
   \<and> writes (snd (snd (deleteCompany (state_companies, env_companies) ''a'')))
       = writes env_companies + 1"
  by code_simp

section \<open>Properties of the PDF service\<close>

lemma item_html_ignores_logo:
  "item_html (options\<lparr>logoPosition := x\<rparr>) currency = item_html options currency"
  by (rule ext) (simp add: item_html_def item_images_def split: prod.splits)

text \<open>
  C10. For every company, customer, quotation and remaining options, the document
  composed with the logo position \<open>left\<close> is the document composed with \<open>right\<close>: both put
  the logo at the end of the header block, and neither fills the centred container. The
  pages rendered from the two are the same as well.
\<close>

theorem logo_left_is_logo_right:
  "generateQuotationHTML company customer quotation (options\<lparr>logoPosition := Some Left\<rparr>)
     = generateQuotationHTML company customer quotation (options\<lparr>logoPosition := Some Right\<rparr>)
   \<and> generateQuotationPDF company customer quotation config
         (options\<lparr>logoPosition := Some Left\<rparr>) b p
     = generateQuotationPDF company customer quotation config
         (options\<lparr>logoPosition := Some Right\<rparr>) b p"
proof -
  have "generateQuotationHTML company customer quotation (options\<lparr>logoPosition := Some Left\<rparr>)
     = generateQuotationHTML company customer quotation (options\<lparr>logoPosition := Some Right\<rparr>)"
    by (simp add: generateQuotationHTML_def logoContainer_def item_html_ignores_logo)
  then show ?thesis by (simp add: generateQuotationPDF_def)
qed

lemma generatePDF_releases_after_load:
  assumes "b \<noteq> NoDocument" and "created p \<notin> set (attached p)"
  shows "attached (snd (generatePDF htmlContent config b p)) = attached p"
proof -
  have "remove1 (created p) (attached p @ [created p]) = attached p"
    using assms(2) by (simp add: remove1_append)
  then show ?thesis
    using assms(1)
    by (cases b)
       (simp_all add: generatePDF_def createElement_def appendChild_def removeChild_def Let_def
          split: option.splits)
qed

text \<open>
  C8, evaluated where it fails: when the browser gives the attached frame no document,
  \<^verbatim>\<open>generatePDF\<close> rejects and returns without detaching the frame, which stays in the page.
  On the three other paths (load failure, capture or encoding failure, success) the
  frame is detached, as \<open>generatePDF_releases_after_load\<close> shows.
\<close>

theorem generatePDF_leaks_without_document:
  "fst (generatePDF htmlContent config NoDocument page0)
     = Inl (Error ''cannot create the iframe document'')
   \<and> attached (snd (generatePDF htmlContent config NoDocument page0)) = [0]
   \<and> attached page0 = []"
  by (simp add: generatePDF_def createElement_def appendChild_def page0_def)

section \<open>Properties of the numeric fields\<close>

lemma parse_float_zero: "parse_float_text ''0'' = Fin 0"
  by code_simp

lemma falsy_to_zero:
  "\<not> truthy c \<Longrightarrow> float_or_zero c = Fin 0 \<and> number_or_zero c = Fin 0"
  by (simp add: float_or_zero_def number_or_zero_def js_or_def parse_float_zero)

lemma number_kept:
  "n \<noteq> NaN \<Longrightarrow> float_or_zero (Num n) = n \<and> number_or_zero (Num n) = n"
  by (cases n) (auto simp: float_or_zero_def number_or_zero_def js_or_def parse_float_zero)

lemma scan_decimal_no_start:
  assumes "\<not> numeric_start ch"
  shows "scan_decimal (ch # t) = None"
proof -
  from assms have s: "strip_sign (ch # t) = (False, ch # t)"
    by (simp add: strip_sign_def numeric_start_def)
  from assms have i: "take 8 (ch # t) \<noteq> ''Infinity''"
    by (auto simp: numeric_start_def)
  from assms have p: "ch \<noteq> CHR ''.''" and nd: "\<not> is_digit ch"
    by (simp_all add: numeric_start_def)
  show ?thesis
    by (simp add: scan_decimal_def s i nd p del: take_Cons_numeral)
qed

lemma trim_keeps_start:
  assumes "\<not> is_ws ch"
  shows "\<exists>t'. trim (ch # t) = ch # t'"
proof -
  have "dropWhile is_ws (rev t @ [ch]) = dropWhile is_ws (rev t) @ [ch]
        \<or> dropWhile is_ws (rev t @ [ch]) = [ch]"
    using assms by (simp add: dropWhile_append)
  then obtain zs where "dropWhile is_ws (rev t @ [ch]) = zs @ [ch]"
    by (metis append_Nil)
  then show ?thesis using assms by (simp add: trim_def)
qed

lemma not_zero_char: "\<not> is_digit ch \<Longrightarrow> ch \<noteq> CHR ''0''"
  by (rule notI) (simp add: is_digit_def)

lemma radix_none: "ch \<noteq> CHR ''0'' \<Longrightarrow> radix_of_prefix (ch # t) = None"
  by (simp add: radix_of_prefix_def)

lemma text_not_numeric:
  assumes "\<not> numeric_start ch"
  shows "parse_float_text (ch # t) = NaN \<and> string_to_number (ch # t) = NaN"
proof -
  from assms have w: "\<not> is_ws ch" and nd: "\<not> is_digit ch" by (simp_all add: numeric_start_def)
  obtain t' where t: "trim (ch # t) = ch # t'" using trim_keeps_start [OF w] by blast
  have r: "radix_of_prefix (ch # t') = None" using nd by (simp add: radix_none not_zero_char)
  have a: "parse_float_text (ch # t) = NaN"
    using w by (simp add: parse_float_text_def scan_decimal_no_start [OF assms])
  have b: "string_to_number (ch # t) = NaN"
    by (simp add: string_to_number_def t r scan_decimal_no_start [OF assms])
  from a b show ?thesis by simp
qed

lemma text_cell_not_numeric:
  "\<not> numeric_start ch \<Longrightarrow>
     float_or_zero (Str (ch # t)) = NaN \<and> number_or_zero (Str (ch # t)) = NaN"
  by (simp add: float_or_zero_def number_or_zero_def js_or_def text_not_numeric)

lemma missing_cell: "i < 0 \<or> int (length row) \<le> i \<Longrightarrow> cell_at row i = Undefined"
  by (auto simp: cell_at_def)

text \<open>
  C5, as the code has it. Every numeric field is decoded by one of two coercions,
  \<^verbatim>\<open>parseFloat(cell || '0')\<close> for the prices of a product and \<^verbatim>\<open>Number(cell || 0)\<close> for the
  numbers of a quotation and of its items. Both give 0 when the cell is missing (no such
  column, or a row that ends before it) or holds a falsy value (nothing, the empty
  string, zero), and both give the number back when the cell holds one. A text that is
  not numeric is not defaulted: when it starts with a character that no number starts
  with (not a digit, a sign, a point, the \<open>I\<close> of \<^verbatim>\<open>Infinity\<close>, nor white space, which both
  coercions skip, the no-break space included), both give \<^verbatim>\<open>NaN\<close>.
\<close>

theorem numeric_fields_default_on_missing_only:
  "(\<not> truthy c \<longrightarrow> float_or_zero c = Fin 0 \<and> number_or_zero c = Fin 0)
   \<and> (i < 0 \<or> int (length row) \<le> i \<longrightarrow>
        float_or_zero (cell_at row i) = Fin 0 \<and> number_or_zero (cell_at row i) = Fin 0)
   \<and> (n \<noteq> NaN \<longrightarrow> float_or_zero (Num n) = n \<and> number_or_zero (Num n) = n)
   \<and> (\<not> numeric_start ch \<longrightarrow>
        float_or_zero (Str (ch # t)) = NaN \<and> number_or_zero (Str (ch # t)) = NaN)
   \<and> p_minPrice (product_of_row h r) = float_or_zero (field h r ''MinPrice'')
   \<and> p_maxPrice (product_of_row h r) = float_or_zero (field h r ''MaxPrice'')
   \<and> qi_quantity (item_of_row h r) = number_or_zero (field h r ''Quantity'')
   \<and> qi_unitPrice (item_of_row h r) = number_or_zero (field h r ''UnitPrice'')
   \<and> qi_discountRate (item_of_row h r) = number_or_zero (field h r ''DiscountRate'')
   \<and> qi_discountAmount (item_of_row h r) = number_or_zero (field h r ''DiscountAmount'')
   \<and> qi_totalPrice (item_of_row h r) = number_or_zero (field h r ''TotalPrice'')
   \<and> q_subtotal (quotation_of_row h r) = number_or_zero (field h r ''Subtotal'')
   \<and> q_taxRate (quotation_of_row h r) = number_or_zero (field h r ''TaxRate'')
   \<and> q_taxAmount (quotation_of_row h r) = number_or_zero (field h r ''TaxAmount'')
   \<and> q_totalAmount (quotation_of_row h r) = number_or_zero (field h r ''TotalAmount'')"
proof -
  have a: "\<not> truthy c \<longrightarrow> float_or_zero c = Fin 0 \<and> number_or_zero c = Fin 0"
    using falsy_to_zero by blast
  have b: "i < 0 \<or> int (length row) \<le> i \<longrightarrow>
        float_or_zero (cell_at row i) = Fin 0 \<and> number_or_zero (cell_at row i) = Fin 0"
    using falsy_to_zero [of Undefined] missing_cell [of i row] by auto
  have c: "n \<noteq> NaN \<longrightarrow> float_or_zero (Num n) = n \<and> number_or_zero (Num n) = n"
    using number_kept by blast
  have d: "\<not> numeric_start ch \<longrightarrow>
        float_or_zero (Str (ch # t)) = NaN \<and> number_or_zero (Str (ch # t)) = NaN"
    using text_cell_not_numeric by blast
  have e: "p_minPrice (product_of_row h r) = float_or_zero (field h r ''MinPrice'')
     \<and> p_maxPrice (product_of_row h r) = float_or_zero (field h r ''MaxPrice'')"
    by (simp add: product_of_row_def)
  have f: "qi_quantity (item_of_row h r) = number_or_zero (field h r ''Quantity'')
     \<and> qi_unitPrice (item_of_row h r) = number_or_zero (field h r ''UnitPrice'')
     \<and> qi_discountRate (item_of_row h r) = number_or_zero (field h r ''DiscountRate'')
     \<and> qi_discountAmount (item_of_row h r) = number_or_zero (field h r ''DiscountAmount'')
     \<and> qi_totalPrice (item_of_row h r) = number_or_zero (field h r ''TotalPrice'')"
    by (simp add: item_of_row_def)
  have g: "q_subtotal (quotation_of_row h r) = number_or_zero (field h r ''Subtotal'')
     \<and> q_taxRate (quotation_of_row h r) = number_or_zero (field h r ''TaxRate'')
     \<and> q_taxAmount (quotation_of_row h r) = number_or_zero (field h r ''TaxAmount'')
     \<and> q_totalAmount (quotation_of_row h r) = number_or_zero (field h r ''TotalAmount'')"
    by (simp add: quotation_of_row_def)
  from a b c d e f g show ?thesis by blast
qed

theorem numeric_fields_default_witness:
  "float_or_zero (Str '''') = Fin 0 \<and> number_or_zero (Str '''') = Fin 0
   \<and> float_or_zero (cell_at [Str ''p1''] 7) = Fin 0 \<and> number_or_zero (cell_at [Str ''p1''] 7) = Fin 0
   \<and> float_or_zero (Num (Fin (25 / 2))) = Fin (25 / 2)
   \<and> number_or_zero (Num (Fin (25 / 2))) = Fin (25 / 2)
   \<and> float_or_zero (Str ''abc'') = NaN \<and> number_or_zero (Str ''abc'') = NaN"
proof -
  have a: "\<not> truthy (Str '''')" by simp
  have b: "(7::int) < 0 \<or> int (length [Str ''p1'']) \<le> 7" by simp
  have c: "Fin (25 / 2) \<noteq> NaN" by simp
  have d: "\<not> numeric_start CHR ''a''"
    by (simp add: numeric_start_def is_ws_def is_digit_def)
  show ?thesis
    using a b c d
      numeric_fields_default_on_missing_only
        [of "Str ''''" 7 "[Str ''p1'']" "Fin (25 / 2)" "CHR ''a''" "''bc''"]
    by blast
qed

text \<open>
  C5 as stated fails on unparseable content: with the text \<open>abc\<close> in the price column of
  a product row, and in the quantity column of an item row, the decoded field is
  \<^verbatim>\<open>NaN\<close>, not 0.
\<close>

theorem numeric_field_unparseable_counterexample:
  "p_minPrice (product_of_row getProductHeaders product_row_text_price) = NaN
   \<and> qi_quantity (item_of_row getQuotationItemHeaders item_row_text_quantity) = NaN
   \<and> field getProductHeaders product_row_text_price ''MinPrice'' = Str ''abc''
   \<and> field getQuotationItemHeaders item_row_text_quantity ''Quantity'' = Str ''abc''"
  by code_simp

section \<open>Properties of the table codecs\<close>

lemma same_code: "(of_char c :: nat) = of_char d \<Longrightarrow> c = d"
  by simp

lemma hex_digit_back: "d < 16 \<Longrightarrow> radix_digit 16 (hex_char d) = Some d"
  by (simp add: radix_digit_def hex_char_def Let_def)

lemma hex4_two:
  assumes "n < 32"
  shows "hex4 (CHR ''0'' # CHR ''0'' # hex_char (n div 16) # hex_char (n mod 16) # r) = Some n"
proof -
  have z: "radix_digit 16 CHR ''0'' = Some 0" by (simp add: radix_digit_def)
  have a: "radix_digit 16 (hex_char (n div 16)) = Some (n div 16)"
    using assms by (intro hex_digit_back) simp
  have b: "radix_digit 16 (hex_char (n mod 16)) = Some (n mod 16)"
    by (intro hex_digit_back) simp
  show ?thesis by (simp add: z a b)
qed

lemma parse_escaped:
  "parse_chars acc (quote_char (CHR 0x22) @ r) = parse_chars (acc @ [CHR 0x22]) r"
  "parse_chars acc (quote_char (CHR 0x5C) @ r) = parse_chars (acc @ [CHR 0x5C]) r"
  "parse_chars acc (quote_char (CHR 0x08) @ r) = parse_chars (acc @ [CHR 0x08]) r"
  "parse_chars acc (quote_char (CHR 0x0C) @ r) = parse_chars (acc @ [CHR 0x0C]) r"
  "parse_chars acc (quote_char (CHR 0x0A) @ r) = parse_chars (acc @ [CHR 0x0A]) r"
  "parse_chars acc (quote_char (CHR 0x0D) @ r) = parse_chars (acc @ [CHR 0x0D]) r"
  "parse_chars acc (quote_char (CHR 0x09) @ r) = parse_chars (acc @ [CHR 0x09]) r"
  by (simp_all add: quote_char_def unescape_def)

lemma parse_quote_char: "parse_chars acc (quote_char c @ r) = parse_chars (acc @ [c]) r"
proof -
  define n where "n = (of_char c :: nat)"
  have c: "char_of n = c" by (simp add: n_def)
  consider "n = 34" | "n = 92" | "n = 8" | "n = 12" | "n = 10" | "n = 13" | "n = 9"
    | "n < 32" "n \<notin> {8, 9, 10, 12, 13}" | "32 \<le> n" "n \<noteq> 34" "n \<noteq> 92"
    by force
  then show ?thesis
  proof cases
    case 1
    then have "c = CHR 0x22" by (intro same_code) (simp add: n_def)
    then show ?thesis by (simp only: parse_escaped)
  next
    case 2
    then have "c = CHR 0x5C" by (intro same_code) (simp add: n_def)
    then show ?thesis by (simp only: parse_escaped)
  next
    case 3
    then have "c = CHR 0x08" by (intro same_code) (simp add: n_def)
    then show ?thesis by (simp only: parse_escaped)
  next
    case 4
    then have "c = CHR 0x0C" by (intro same_code) (simp add: n_def)
    then show ?thesis by (simp only: parse_escaped)
  next
    case 5
    then have "c = CHR 0x0A" by (intro same_code) (simp add: n_def)
    then show ?thesis by (simp only: parse_escaped)
  next
    case 6
    then have "c = CHR 0x0D" by (intro same_code) (simp add: n_def)
    then show ?thesis by (simp only: parse_escaped)
  next
    case 7
    then have "c = CHR 0x09" by (intro same_code) (simp add: n_def)
    then show ?thesis by (simp only: parse_escaped)
  next
    case 8
    then have q: "quote_char c = [CHR 0x5C, CHR ''u'', CHR ''0'', CHR ''0'',
                                  hex_char (n div 16), hex_char (n mod 16)]"
      by (auto simp: quote_char_def n_def [symmetric] Let_def)
    show ?thesis
      using 8(1) by (simp add: q hex4_two c del: hex4.simps)
  next
    case 9
    then have q: "quote_char c = [c]"
      by (auto simp: quote_char_def n_def [symmetric] Let_def)
    have "c \<noteq> CHR 0x22" "c \<noteq> CHR 0x5C" "\<not> (of_char c :: nat) < 32"
      using 9 by (auto simp: n_def)
    then show ?thesis by (simp add: q)
  qed
qed

lemma parse_quoted:
  "parse_chars acc (concat (map quote_char s) @ CHR 0x22 # r) = Some (acc @ s, r)"
proof (induction s arbitrary: acc)
  case Nil
  then show ?case by simp
next
  case (Cons c s)
  have "parse_chars acc (concat (map quote_char (c # s)) @ CHR 0x22 # r)
          = parse_chars acc (quote_char c @ (concat (map quote_char s) @ CHR 0x22 # r))"
    by simp
  also have "\<dots> = parse_chars (acc @ [c]) (concat (map quote_char s) @ CHR 0x22 # r)"
    by (rule parse_quote_char)
  also have "\<dots> = Some ((acc @ [c]) @ s, r)" by (rule Cons.IH)
  finally show ?case by simp
qed

lemma skip_ws_quote: "skip_ws (CHR 0x22 # r) = CHR 0x22 # r"
  by (simp add: skip_ws_def is_json_ws_def)

lemma skip_ws_comma: "skip_ws (CHR '','' # r) = CHR '','' # r"
  by (simp add: skip_ws_def is_json_ws_def)

lemma skip_ws_bracket: "skip_ws (CHR '']'' # r) = CHR '']'' # r"
  by (simp add: skip_ws_def is_json_ws_def)

lemma parse_value_string: "parse_value (Suc k) (quote s @ r) = Some (JStr s, r)"
  by (simp add: quote_def skip_ws_quote parse_quoted)

lemma parse_elements_strings:
  assumes "xs \<noteq> []" and "length xs < k"
  shows "parse_elements k acc (stringify_elements (map JStr xs) @ CHR '']'' # r)
           = Some (JArr (acc @ map JStr xs), r)"
  using assms
proof (induction xs arbitrary: k acc)
  case Nil
  then show ?case by simp
next
  case (Cons x xs)
  then obtain k1 where k: "k = Suc (Suc k1)" and k1: "length xs \<le> k1"
    by (cases k; cases "k - 1") auto
  show ?case
  proof (cases "xs = []")
    case True
    then show ?thesis
      by (simp add: k parse_value_string skip_ws_bracket del: parse_value.simps)
  next
    case False
    have "parse_elements (Suc k1) (acc @ [JStr x])
            (stringify_elements (map JStr xs) @ CHR '']'' # r)
          = Some (JArr ((acc @ [JStr x]) @ map JStr xs), r)"
      using False k1 by (intro Cons.IH) simp_all
    with False show ?thesis
      by (simp add: k parse_value_string skip_ws_comma del: parse_value.simps)
  qed
qed

lemma stringify_strings_length: "length xs \<le> length (stringify_elements (map JStr xs))"
  by (induction xs) (simp_all add: quote_def)

lemma stringify_strings_start:
  "xs \<noteq> [] \<Longrightarrow> \<exists>t. stringify_elements (map JStr xs) @ r = CHR 0x22 # t"
  by (cases xs) (simp_all add: quote_def)

lemma parse_string_array:
  assumes "length xs < k"
  shows "parse_value (Suc k) (JSON_stringify (JArr (map JStr xs)) @ r)
           = Some (JArr (map JStr xs), r)"
proof (cases "xs = []")
  case True
  then show ?thesis by (simp add: skip_ws_def is_json_ws_def)
next
  case False
  obtain t where t: "stringify_elements (map JStr xs) @ CHR '']'' # r = CHR 0x22 # t"
    using stringify_strings_start [OF False] by blast
  have "parse_elements k [] (stringify_elements (map JStr xs) @ CHR '']'' # r)
          = Some (JArr ([] @ map JStr xs), r)"
    using False assms by (rule parse_elements_strings)
  then have "parse_elements k [] (CHR 0x22 # t) = Some (JArr (map JStr xs), r)"
    by (simp add: t)
  then show ?thesis
    by (simp add: t skip_ws_quote skip_ws_def is_json_ws_def)
qed

lemma JSON_parse_strings:
  "JSON_parse (JSON_stringify (JArr (map JStr xs))) = Some (JArr (map JStr xs))"
proof -
  let ?text = "JSON_stringify (JArr (map JStr xs))"
  have "length xs < 2 * length ?text + 1"
    using stringify_strings_length [of xs] by simp
  from parse_string_array [OF this, of "[]"]
  show ?thesis by (simp add: JSON_parse_def skip_ws_def)
qed

lemma js_or_text: "is_text c \<Longrightarrow> js_or c (Str []) = c"
  by (cases c) (auto simp: js_or_def)

lemma company_round_trip:
  assumes "wf_company c"
  shows "company_of_row getCompanyHeaders (company_row c)
           = c\<lparr>c_intermediaryBank := js_or (c_intermediaryBank c) (Str []),
               c_logo := js_or (c_logo c) (Str [])\<rparr>"
  using assms by (simp add: company_of_company_row wf_company_def js_or_text)

lemma product_header_index:
  "indexOf getProductHeaders (Str ''ID'') = 0"
  "indexOf getProductHeaders (Str ''ProductName'') = 1"
  "indexOf getProductHeaders (Str ''EnglishName'') = 2"
  "indexOf getProductHeaders (Str ''ProductDescription'') = 3"
  "indexOf getProductHeaders (Str ''EnglishDescription'') = 4"
  "indexOf getProductHeaders (Str ''Category'') = 5"
  "indexOf getProductHeaders (Str ''Unit'') = 6"
  "indexOf getProductHeaders (Str ''MinPrice'') = 7"
  "indexOf getProductHeaders (Str ''MaxPrice'') = 8"
  "indexOf getProductHeaders (Str ''Currency'') = 9"
  "indexOf getProductHeaders (Str ''Specifications'') = 10"
  "indexOf getProductHeaders (Str ''IsActive'') = 11"
  "indexOf getProductHeaders (Str ''Images'') = 12"
  by (simp_all add: getProductHeaders_def)

lemma string_array_strings: "string_array v \<Longrightarrow> \<exists>xs. v = JArr (map JStr xs)"
proof (cases v)
  case (JArr vs)
  assume "string_array v"
  with JArr have "list_all is_jstr vs" by simp
  then have "\<exists>xs. vs = map JStr xs"
  proof (induction vs)
    case Nil
    then show ?case by simp
  next
    case (Cons a vs)
    then obtain xs where "vs = map JStr xs" by auto
    moreover from Cons.prems obtain s where "a = JStr s" by (cases a) auto
    ultimately have "a # vs = map JStr (s # xs)" by simp
    then show ?case by (rule exI [of _ "s # xs"])
  qed
  with JArr show ?thesis by simp
qed simp_all

lemma images_text:
  assumes "case images of None \<Rightarrow> True | Some v \<Rightarrow> string_array v"
  shows "parse_images (Str (JSON_stringify (images_or_empty images))) = images_or_empty images"
proof -
  obtain xs where xs: "images_or_empty images = JArr (map JStr xs)"
  proof (cases images)
    case None
    then have "images_or_empty images = JArr (map JStr [])" by (simp add: images_or_empty_def)
    then show ?thesis by (rule that)
  next
    case (Some v)
    with assms obtain ys where "v = JArr (map JStr ys)"
      using string_array_strings by auto
    with Some have "images_or_empty images = JArr (map JStr ys)"
      by (simp add: images_or_empty_def)
    then show ?thesis by (rule that)
  qed
  have "JSON_stringify (JArr (map JStr xs)) \<noteq> []" by simp
  then have "js_String (js_or (Str (JSON_stringify (JArr (map JStr xs)))) (Str ''[]''))
               = JSON_stringify (JArr (map JStr xs))"
    by (simp add: js_or_def)
  then show ?thesis
    by (simp only: parse_images_def xs JSON_parse_strings option.case)
qed

lemma product_round_trip:
  assumes "wf_product p"
  shows "(product_of_row getProductHeaders (product_row p))\<lparr>p_specifications := p_specifications p\<rparr>
           = p\<lparr>p_currency := js_or (p_currency p) (Str ''USD''),
               p_images := Some (images_or_empty (p_images p))\<rparr>"
proof -
  from assms have img: "case p_images p of None \<Rightarrow> True | Some v \<Rightarrow> string_array v"
    by (simp add: wf_product_def)
  from assms have n: "float_or_zero (Num (p_minPrice p)) = p_minPrice p"
    "float_or_zero (Num (p_maxPrice p)) = p_maxPrice p"
    using number_kept by (simp_all add: wf_product_def number_defined_def)
  show ?thesis
    using assms
    by (simp add: product_of_row_def product_row_def field_def product_header_index cell_at_def
        wf_product_def js_or_text n images_text [OF img])
qed

lemma customer_header_index:
  "indexOf getCustomerHeaders (Str ''ID'') = 0"
  "indexOf getCustomerHeaders (Str ''CustomerName'') = 1"
  "indexOf getCustomerHeaders (Str ''ContactPerson'') = 2"
  "indexOf getCustomerHeaders (Str ''Email'') = 3"
  "indexOf getCustomerHeaders (Str ''Phone'') = 4"
  "indexOf getCustomerHeaders (Str ''Address'') = 5"
  "indexOf getCustomerHeaders (Str ''Country'') = 6"
  "indexOf getCustomerHeaders (Str ''CompanyName'') = 7"
  "indexOf getCustomerHeaders (Str ''TaxNumber'') = 8"
  "indexOf getCustomerHeaders (Str ''Notes'') = 9"
  by (simp_all add: getCustomerHeaders_def)

lemma customer_round_trip:
  "customer_of_row getCustomerHeaders (customer_row k) = k"
  by (simp add: customer_of_row_def customer_row_def field_def customer_header_index cell_at_def
      text_or_Str)

lemma quotation_header_index:
  "indexOf getQuotationHeaders (Str ''ID'') = 0"
  "indexOf getQuotationHeaders (Str ''QuotationNumber'') = 1"
  "indexOf getQuotationHeaders (Str ''CompanyID'') = 2"
  "indexOf getQuotationHeaders (Str ''CustomerID'') = 3"
  "indexOf getQuotationHeaders (Str ''QuotationDate'') = 4"
  "indexOf getQuotationHeaders (Str ''ExpiryDate'') = 5"
  "indexOf getQuotationHeaders (Str ''Currency'') = 6"
  "indexOf getQuotationHeaders (Str ''PaymentTerms'') = 7"
  "indexOf getQuotationHeaders (Str ''DeliveryTerms'') = 8"
  "indexOf getQuotationHeaders (Str ''PickupLocation'') = 9"
  "indexOf getQuotationHeaders (Str ''TradeTerms'') = 10"
  "indexOf getQuotationHeaders (Str ''Subtotal'') = 11"
  "indexOf getQuotationHeaders (Str ''TaxRate'') = 12"
  "indexOf getQuotationHeaders (Str ''TaxAmount'') = 13"
  "indexOf getQuotationHeaders (Str ''TotalAmount'') = 14"
  "indexOf getQuotationHeaders (Str ''Status'') = 15"
  "indexOf getQuotationHeaders (Str ''Notes'') = 16"
  by (simp_all add: getQuotationHeaders_def)

lemma text_or_default: "text_or (Str s) d = (if s = [] then d else s)"
  by (simp add: text_or_def js_or_def)

lemma quotation_round_trip:
  assumes "quotation_defined q"
  shows "quotation_of_row getQuotationHeaders (quotation_row q)
           = q\<lparr>q_currency := (if q_currency q = [] then ''USD'' else q_currency q),
               q_status := (if q_status q = [] then ''draft'' else q_status q),
               q_items := []\<rparr>"
  using assms
  by (simp add: quotation_of_row_def quotation_row_def field_def quotation_header_index
      cell_at_def text_or_Str text_or_default number_or_zero_Num quotation_defined_def)

text \<open>
  C4, as the code has it. Decoding the row that encodes a well-formed record gives the
  record back up to the defaults the decoders apply. A company comes back with an unset
  intermediary bank or logo as the empty string. A product comes back with an empty
  currency as \<open>USD\<close> and an unset image list as the empty list, its prices and its list of
  image references unchanged; nothing is stated about its specification map. A customer
  and a quotation item come back unchanged. A quotation comes back without its items,
  with an empty currency as \<open>USD\<close> and an empty status as \<open>draft\<close>.
\<close>

theorem decode_encode_up_to_defaults:
  "(wf_company c \<longrightarrow>
      company_of_row getCompanyHeaders (company_row c)
        = c\<lparr>c_intermediaryBank := js_or (c_intermediaryBank c) (Str []),
            c_logo := js_or (c_logo c) (Str [])\<rparr>)
   \<and> (wf_product p \<longrightarrow>
      (product_of_row getProductHeaders (product_row p))\<lparr>p_specifications := p_specifications p\<rparr>
        = p\<lparr>p_currency := js_or (p_currency p) (Str ''USD''),
            p_images := Some (images_or_empty (p_images p))\<rparr>)
   \<and> customer_of_row getCustomerHeaders (customer_row k) = k
   \<and> (quotation_defined q \<longrightarrow>
      quotation_of_row getQuotationHeaders (quotation_row q)
        = q\<lparr>q_currency := (if q_currency q = [] then ''USD'' else q_currency q),
            q_status := (if q_status q = [] then ''draft'' else q_status q),
            q_items := []\<rparr>)
   \<and> (item_defined item \<longrightarrow>
      item_of_row getQuotationItemHeaders (item_row quotationId item) = item)"
  using company_round_trip [of c] product_round_trip [of p] customer_round_trip [of k]
    quotation_round_trip [of q] item_of_item_row [of item quotationId]
  by blast

theorem decode_encode_witness:
  "company_of_row getCompanyHeaders (company_row (company_named ''a'' True))
     = (company_named ''a'' True)\<lparr>c_intermediaryBank := Str [], c_logo := Str []\<rparr>
   \<and> (product_of_row getProductHeaders (product_row product1))
        \<lparr>p_specifications := p_specifications product1\<rparr> = product1
   \<and> customer_of_row getCustomerHeaders (customer_row customer1) = customer1
   \<and> quotation_of_row getQuotationHeaders (quotation_row quotation1)
        = quotation1\<lparr>q_items := []\<rparr>
   \<and> item_of_row getQuotationItemHeaders (item_row ''q1'' item1) = item1"
proof -
  have a: "wf_company (company_named ''a'' True)"
    by (simp add: wf_company_def company_named_def optional_text_def)
  have b: "wf_product product1"
    by (simp add: wf_product_def product1_def number_defined_def)
  have c: "quotation_defined quotation1"
    by (simp add: quotation_defined_def quotation1_def number_defined_def)
  have d: "item_defined item1"
    by (simp add: item_defined_def item1_def number_defined_def)
  have e: "(company_named ''a'' True)
             \<lparr>c_intermediaryBank := js_or (c_intermediaryBank (company_named ''a'' True)) (Str []),
              c_logo := js_or (c_logo (company_named ''a'' True)) (Str [])\<rparr>
           = (company_named ''a'' True)\<lparr>c_intermediaryBank := Str [], c_logo := Str []\<rparr>"
    by (simp add: company_named_def js_or_def)
  have f: "product1\<lparr>p_currency := js_or (p_currency product1) (Str ''USD''),
                    p_images := Some (images_or_empty (p_images product1))\<rparr> = product1"
    by (simp add: product1_def js_or_def images_or_empty_def)
  have g: "quotation1\<lparr>q_currency := (if q_currency quotation1 = [] then ''USD''
                                        else q_currency quotation1),
                      q_status := (if q_status quotation1 = [] then ''draft''
                                   else q_status quotation1),
                      q_items := []\<rparr> = quotation1\<lparr>q_items := []\<rparr>"
    by (simp add: quotation1_def)
  show ?thesis
    using decode_encode_up_to_defaults
        [of "company_named ''a'' True" product1 customer1 quotation1 item1 "''q1''"]
      a b c d
    by (simp only: e f g simp_thms)
qed

text \<open>
  C4 as stated fails twice. A company without a logo does not come back equal: its
  logo comes back as the empty string. A product with a non-empty specification map does
  not come back equal: \<^verbatim>\<open>getProducts\<close> never reads the column that \<^verbatim>\<open>saveProduct\<close>
  writes, and gives every product the empty map.
\<close>

theorem decode_encode_counterexample:
  "company_of_row getCompanyHeaders (company_row (company_named ''a'' True))
     \<noteq> company_named ''a'' True
   \<and> c_logo (company_of_row getCompanyHeaders (company_row (company_named ''a'' True))) = Str []
   \<and> c_logo (company_named ''a'' True) = Undefined
   \<and> product_of_row getProductHeaders (product_row product1) \<noteq> product1
   \<and> p_specifications (product_of_row getProductHeaders (product_row product1)) = JObj []
   \<and> p_specifications product1 = JObj [(''color'', JStr ''red'')]
   \<and> cell_at (product_row product1) 10 = Str (JSON_stringify (JObj [(''color'', JStr ''red'')]))"
proof -
  have l: "c_logo (company_of_row getCompanyHeaders (company_row (company_named ''a'' True)))
             = Str []"
    by code_simp
  have l': "c_logo (company_named ''a'' True) = Undefined"
    by (simp add: company_named_def)
  have s: "p_specifications (product_of_row getProductHeaders (product_row product1)) = JObj []"
    by (simp add: product_of_row_def)
  have s': "p_specifications product1 = JObj [(''color'', JStr ''red'')]"
    by (simp add: product1_def)
  have t: "cell_at (product_row product1) 10
             = Str (JSON_stringify (JObj [(''color'', JStr ''red'')]))"
    by (simp add: product_row_def cell_at_def product1_def)
  from l l' have "company_of_row getCompanyHeaders (company_row (company_named ''a'' True))
                    \<noteq> company_named ''a'' True"
    by (metis cell.distinct(7))
  moreover from s s' have "product_of_row getProductHeaders (product_row product1) \<noteq> product1"
    by (metis json.inject(5) list.distinct(1))
  ultimately show ?thesis using l l' s s' t by simp
qed

text \<open>
  The product store deletes the way the company store does: with products \<open>p1\<close> and
  \<open>p2\<close> stored and loaded, \<^verbatim>\<open>deleteProduct\<close> of \<open>p1\<close> reports success and the list loaded
  afterwards still holds \<open>p1\<close>.
\<close>

lemma deleteProduct_keeps_the_row:
  "fst (deleteProduct (state_products, env_products) ''p1'') = None
   \<and> map p_id (products (fst (snd (deleteProduct (state_products, env_products) ''p1''))))
       = [Str ''p1'', Str ''p2'']"
  by code_simp

end
